theory Spec2Isabelle
  imports Main "HOL-Library.Word"
begin

section \<open>RateLimiter (src/ratelimit.ts)\<close>

text \<open>
  The limiter keeps one entry per user id in a JavaScript Map. Times are the integer
  milliseconds of Date.now(), passed in as \<open>now\<close>; maxRequests and windowMs are the
  constructor's arguments. The in-place \<open>entry.count++\<close> is the update of the map at
  that user id.
\<close>

record RateLimitEntry =
  count :: int
  resetAt :: int

record RateLimiter =
  limits :: "string \<rightharpoonup> RateLimitEntry"
  maxRequests :: int
  windowMs :: int

record RateLimitResult =
  allowed :: bool
  retryAfter :: "int option"

definition open_window :: "int \<Rightarrow> string \<Rightarrow> RateLimiter \<Rightarrow> RateLimitResult \<times> RateLimiter" where
  "open_window now userId rl =
     (\<lparr>allowed = True, retryAfter = None\<rparr>,
      rl\<lparr>limits := (limits rl)(userId \<mapsto> \<lparr>count = 1, resetAt = now + windowMs rl\<rparr>)\<rparr>)"

definition RateLimiter_check :: "int \<Rightarrow> string \<Rightarrow> RateLimiter \<Rightarrow> RateLimitResult \<times> RateLimiter" where
  "RateLimiter_check now userId rl =
     (case limits rl userId of
        None \<Rightarrow> open_window now userId rl
      | Some entry \<Rightarrow>
          if now \<ge> resetAt entry then open_window now userId rl
          else if count entry < maxRequests rl then
            (\<lparr>allowed = True, retryAfter = None\<rparr>,
             rl\<lparr>limits := (limits rl)(userId \<mapsto> entry\<lparr>count := count entry + 1\<rparr>)\<rparr>)
          else
            (\<lparr>allowed = False, retryAfter = Some (resetAt entry - now)\<rparr>, rl))"

text \<open>A run of check calls for one user id, at the given clock readings, in order.\<close>

fun checks :: "int list \<Rightarrow> string \<Rightarrow> RateLimiter \<Rightarrow> RateLimitResult list \<times> RateLimiter" where
  "checks [] userId rl = ([], rl)"
| "checks (t # ts) userId rl =
     (case RateLimiter_check t userId rl of
        (r, rl') \<Rightarrow> (case checks ts userId rl' of (rs, rl'') \<Rightarrow> (r # rs, rl'')))"

text \<open>No window is open for the user at time \<open>now\<close>: no entry, or its resetAt has passed.\<close>

definition window_closed :: "RateLimiter \<Rightarrow> string \<Rightarrow> int \<Rightarrow> bool" where
  "window_closed rl userId now =
     (case limits rl userId of None \<Rightarrow> True | Some entry \<Rightarrow> now \<ge> resetAt entry)"

text \<open>
  What the k-th call (counted from 0) made at time \<open>t\<close> inside a window that closes at
  \<open>r\<close> is expected to return under a limit of \<open>N\<close> requests.
\<close>

definition window_answer :: "int \<Rightarrow> int \<Rightarrow> nat \<times> int \<Rightarrow> RateLimitResult" where
  "window_answer N r kt =
     (if int (fst kt) < N then \<lparr>allowed = True, retryAfter = None\<rparr>
      else \<lparr>allowed = False, retryAfter = Some (r - snd kt)\<rparr>)"

section \<open>Persistence (src/db.ts)\<close>

text \<open>
  The SQLite tables the gate and the agent loop use, each statement of db.ts as one
  function on the database value (better-sqlite3 runs a statement synchronously and
  SQLite runs it atomically). A failed INSERT is the value \<open>Inl\<close> of the error.
\<close>

datatype error =
    SqliteConstraint string
  | ModelProviderError string

text \<open>Table pairing_codes: code is the primary key; used is the 0/1 column.\<close>

record pairing_row =
  user_id :: string
  channel :: string
  expires_at :: int
  used :: bool

record PairingCode =
  pc_code :: string
  pc_userId :: string
  pc_channel :: string
  pc_expiresAt :: int
  pc_used :: bool

datatype SecurityEventType =
  blocked | pairing_attempt | pairing_approved | allowlist_hit | rate_limit

record SecurityEvent =
  ev_id :: string
  ev_type :: SecurityEventType
  ev_userId :: string
  ev_channel :: string
  ev_details :: string
  ev_timestamp :: int

record Session =
  s_id :: string
  s_userId :: string
  s_channel :: string
  s_groupId :: "string option"
  createdAt :: int
  lastActiveAt :: int
  model :: string
  systemPrompt :: "string option"

datatype Role = user | assistant | system | tool

record Message =
  m_id :: string
  sessionId :: string
  m_role :: Role
  m_content :: string
  m_timestamp :: int
  m_channel :: string
  m_userId :: string
  m_groupId :: "string option"

text \<open>
  Tables sessions, messages and security_events are kept as the list of their rows in
  insertion order; pairing_codes and allowlist as maps from their primary keys (the
  allowlist row's value is its added_at).
\<close>

record Database =
  pairing_codes :: "string \<rightharpoonup> pairing_row"
  allowlist :: "string \<times> string \<rightharpoonup> int"
  security_events :: "SecurityEvent list"
  sessions :: "Session list"
  messages :: "Message list"

text \<open>
  logSecurityEvent: a plain INSERT keyed by the event id. Every id written is a fresh
  nanoid(), whose contract is uniqueness, so the insert is taken to succeed and the
  table is an append-only list.
\<close>

definition logSecurityEvent :: "SecurityEvent \<Rightarrow> Database \<Rightarrow> Database" where
  "logSecurityEvent event db = db\<lparr>security_events := security_events db @ [event]\<rparr>"

definition isAllowlisted :: "Database \<Rightarrow> string \<Rightarrow> string \<Rightarrow> bool" where
  "isAllowlisted db userId chan = (allowlist db (userId, chan) \<noteq> None)"

text \<open>addToAllowlist: INSERT OR IGNORE, so an existing row keeps its added_at.\<close>

definition addToAllowlist :: "int \<Rightarrow> string \<Rightarrow> string \<Rightarrow> Database \<Rightarrow> Database" where
  "addToAllowlist now userId chan db =
     (case allowlist db (userId, chan) of
        None \<Rightarrow> db\<lparr>allowlist := (allowlist db)((userId, chan) \<mapsto> now)\<rparr>
      | Some _ \<Rightarrow> db)"

text \<open>
  savePairingCode: a plain INSERT with used = 0. The code is the primary key, so a row
  with the same code makes the statement fail (better-sqlite3 throws).
\<close>

definition savePairingCode :: "PairingCode \<Rightarrow> Database \<Rightarrow> error + Database" where
  "savePairingCode pc db =
     (case pairing_codes db (pc_code pc) of
        Some _ \<Rightarrow> Inl (SqliteConstraint ''pairing_codes.code'')
      | None \<Rightarrow>
          Inr (db\<lparr>pairing_codes := (pairing_codes db)(pc_code pc \<mapsto>
                 \<lparr>user_id = pc_userId pc, channel = pc_channel pc,
                  expires_at = pc_expiresAt pc, used = False\<rparr>)\<rparr>))"

text \<open>getPairingCode: SELECT ... WHERE code = ? AND used = 0 AND expires_at > now.\<close>

definition getPairingCode :: "int \<Rightarrow> string \<Rightarrow> Database \<Rightarrow> PairingCode option" where
  "getPairingCode now c db =
     (case pairing_codes db c of
        None \<Rightarrow> None
      | Some row \<Rightarrow>
          if \<not> used row \<and> expires_at row > now then
            Some \<lparr>pc_code = c, pc_userId = user_id row, pc_channel = channel row,
                  pc_expiresAt = expires_at row, pc_used = False\<rparr>
          else None)"

text \<open>
  consumePairingCode: UPDATE pairing_codes SET used = 1 WHERE code = ? AND used = 0 AND
  expires_at > now; the result is whether a row changed.
\<close>

definition consumePairingCode :: "int \<Rightarrow> string \<Rightarrow> Database \<Rightarrow> bool \<times> Database" where
  "consumePairingCode now c db =
     (case pairing_codes db c of
        None \<Rightarrow> (False, db)
      | Some row \<Rightarrow>
          if \<not> used row \<and> expires_at row > now then
            (True, db\<lparr>pairing_codes := (pairing_codes db)(c \<mapsto> row\<lparr>used := True\<rparr>)\<rparr>)
          else (False, db))"

text \<open>
  The pairing-code statement of cleanupOldData:
  DELETE FROM pairing_codes WHERE used = 1 OR expires_at < now.
\<close>

definition cleanupPairingCodes :: "int \<Rightarrow> Database \<Rightarrow> Database" where
  "cleanupPairingCodes now db =
     db\<lparr>pairing_codes := (\<lambda>c.
        case pairing_codes db c of
          None \<Rightarrow> None
        | Some row \<Rightarrow> if used row \<or> expires_at row < now then None else Some row)\<rparr>"

section \<open>Sessions and messages (src/db.ts)\<close>

text \<open>
  upsertSession: INSERT ... ON CONFLICT(id) DO UPDATE SET last_active_at, model,
  system_prompt. A row with the same id keeps its place and its other columns.
\<close>

fun upsert_row :: "Session \<Rightarrow> Session list \<Rightarrow> Session list" where
  "upsert_row s [] = [s]"
| "upsert_row s (r # rs) =
     (if s_id r = s_id s then
        r\<lparr>lastActiveAt := lastActiveAt s, model := model s, systemPrompt := systemPrompt s\<rparr> # rs
      else r # upsert_row s rs)"

definition upsertSession :: "Session \<Rightarrow> Database \<Rightarrow> Database" where
  "upsertSession session db = db\<lparr>sessions := upsert_row session (sessions db)\<rparr>"

definition getSession :: "Database \<Rightarrow> string \<Rightarrow> Session option" where
  "getSession db ident = find (\<lambda>r. s_id r = ident) (sessions db)"

text \<open>
  getSessionByUser: SELECT ... WHERE user_id = ? AND channel = ? AND group_id IS NULL
  ORDER BY last_active_at DESC LIMIT 1. Among rows with the same last_active_at SQLite
  may return any; the model returns the earliest inserted.
\<close>

definition getSessionByUser :: "Database \<Rightarrow> string \<Rightarrow> string \<Rightarrow> Session option" where
  "getSessionByUser db userId chan =
     (case filter (\<lambda>r. s_userId r = userId \<and> s_channel r = chan \<and> s_groupId r = None)
             (sessions db) of
        [] \<Rightarrow> None
      | r # rs \<Rightarrow>
          Some (foldl (\<lambda>best x. if lastActiveAt x > lastActiveAt best then x else best) r rs))"

text \<open>
  saveMessage: INSERT OR REPLACE, so a row with the same id is replaced by the new row.
  (The foreign key on session_id holds wherever process saves a message: it has just
  upserted the session.)
\<close>

definition saveMessage :: "Message \<Rightarrow> Database \<Rightarrow> Database" where
  "saveMessage msg db =
     db\<lparr>messages := filter (\<lambda>m. m_id m \<noteq> m_id msg) (messages db) @ [msg]\<rparr>"

text \<open>
  getSessionMessages: the \<open>limit\<close> rows of the session with the latest timestamps, in
  ascending order (ORDER BY timestamp DESC LIMIT ?, then reversed). Rows with equal
  timestamps are kept in insertion order.
\<close>

definition getSessionMessages :: "Database \<Rightarrow> string \<Rightarrow> nat \<Rightarrow> Message list" where
  "getSessionMessages db sid limit =
     (let rows = sort_key m_timestamp (filter (\<lambda>m. sessionId m = sid) (messages db))
      in drop (length rows - limit) rows)"

section \<open>SecurityGate (src/gate.ts)\<close>

record TelegramConfig =
  tg_enabled :: bool
  token :: string
  allowedUserIds :: "string list"

record WhatsAppConfig =
  wa_enabled :: bool
  allowedNumbers :: "string list"

record ChannelsConfig =
  telegram :: "TelegramConfig option"
  whatsapp :: "WhatsAppConfig option"

datatype DmPolicy = strict | pairing

datatype Runtime = docker | no_runtime

record ContainerConfig =
  runtime :: Runtime
  image :: string
  memoryLimit :: string
  cpuLimit :: string
  sandboxWorkspace :: string

text \<open>pairingCodeLength is a length, a natural number.\<close>

record SecurityConfig =
  dmPolicy :: DmPolicy
  pairingCodeLength :: nat
  container :: ContainerConfig

record Config =
  defaultModel :: string
  channels :: ChannelsConfig
  security :: SecurityConfig

record GateResult =
  gate_allowed :: bool
  reason :: "string option"
  pairingCode :: "string option"

text \<open>
  What a call reads from outside the program: the random bytes of crypto.randomBytes
  (byte i of the buffer), the id nanoid() returns for the event, and the two readings of
  Date.now(), in issuePairingCode and in logEvent.
\<close>

record GateEnv =
  random_byte :: "nat \<Rightarrow> 8 word"
  event_nanoid :: string
  now_issue :: int
  now_log :: int

definition getHardcodedAllowlist :: "Config \<Rightarrow> string \<Rightarrow> string list" where
  "getHardcodedAllowlist cfg chan =
     (if chan = ''telegram'' then
        (case telegram (channels cfg) of None \<Rightarrow> [] | Some t \<Rightarrow> allowedUserIds t)
      else
        (case whatsapp (channels cfg) of None \<Rightarrow> [] | Some w \<Rightarrow> allowedNumbers w))"

definition logEvent ::
  "SecurityEventType \<Rightarrow> string \<Rightarrow> string \<Rightarrow> string \<Rightarrow> string \<Rightarrow> int \<Rightarrow> Database \<Rightarrow> Database" where
  "logEvent ty userId chan details nid now db =
     logSecurityEvent
       \<lparr>ev_id = nid, ev_type = ty, ev_userId = userId, ev_channel = chan,
        ev_details = details, ev_timestamp = now\<rparr> db"

text \<open>Buffer.toString("hex"): two lower-case hexadecimal digits per byte.\<close>

definition hex_digit :: "nat \<Rightarrow> char" where
  "hex_digit n = ''0123456789abcdef'' ! (n mod 16)"

definition randomBytes :: "(nat \<Rightarrow> 8 word) \<Rightarrow> nat \<Rightarrow> 8 word list" where
  "randomBytes rnd n = map rnd [0..<n]"

definition toHex :: "8 word list \<Rightarrow> string" where
  "toHex bytes = concat (map (\<lambda>b. [hex_digit (unat b div 16), hex_digit (unat b mod 16)]) bytes)"

text \<open>String.toUpperCase on the ASCII letters (all that hexadecimal digits and the
  role names of the examples use).\<close>

definition toUpperCase_char :: "char \<Rightarrow> char" where
  "toUpperCase_char c =
     (let n = (of_char c :: nat) in if 97 \<le> n \<and> n \<le> 122 then char_of (n - 32) else c)"

definition toUpperCase :: "string \<Rightarrow> string" where
  "toUpperCase s = map toUpperCase_char s"

text \<open>
  The code issuePairingCode draws: randomBytes(ceil(len / 2)) as hexadecimal, cut to
  \<open>len\<close> characters, in upper case.
\<close>

definition generateCode :: "nat \<Rightarrow> (nat \<Rightarrow> 8 word) \<Rightarrow> string" where
  "generateCode len rnd = toUpperCase (take len (toHex (randomBytes rnd ((len + 1) div 2))))"

definition issuePairingCode ::
  "Config \<Rightarrow> GateEnv \<Rightarrow> string \<Rightarrow> string \<Rightarrow> Database \<Rightarrow> error + (string \<times> Database)" where
  "issuePairingCode cfg env userId chan db =
     (let c = generateCode (pairingCodeLength (security cfg)) (random_byte env);
          pc = \<lparr>pc_code = c, pc_userId = userId, pc_channel = chan,
                pc_expiresAt = now_issue env + 10 * 60 * 1000, pc_used = False\<rparr>
      in case savePairingCode pc db of
           Inl e \<Rightarrow> Inl e
         | Inr db' \<Rightarrow> Inr (c, db'))"

definition SecurityGate_check ::
  "Config \<Rightarrow> GateEnv \<Rightarrow> string \<Rightarrow> string \<Rightarrow> Database \<Rightarrow> error + (GateResult \<times> Database)" where
  "SecurityGate_check cfg env userId chan db =
     (let hardcoded = getHardcodedAllowlist cfg chan in
      if length hardcoded > 0 \<and> userId \<notin> set hardcoded then
        if \<not> isAllowlisted db userId chan then
          if dmPolicy (security cfg) = pairing then
            (case issuePairingCode cfg env userId chan db of
               Inl e \<Rightarrow> Inl e
             | Inr (c, db') \<Rightarrow>
                 Inr (\<lparr>gate_allowed = False, reason = Some ''pairing_required'',
                       pairingCode = Some c\<rparr>,
                      logEvent blocked userId chan (''Pairing code issued: '' @ c)
                        (event_nanoid env) (now_log env) db'))
          else
            Inr (\<lparr>gate_allowed = False, reason = Some ''not_allowed'', pairingCode = None\<rparr>,
                 logEvent blocked userId chan ''Not in allowlist''
                   (event_nanoid env) (now_log env) db)
        else
          Inr (\<lparr>gate_allowed = True, reason = None, pairingCode = None\<rparr>,
               logEvent allowlist_hit userId chan ''Access granted''
                 (event_nanoid env) (now_log env) db)
      else
        Inr (\<lparr>gate_allowed = True, reason = None, pairingCode = None\<rparr>,
             logEvent allowlist_hit userId chan ''Access granted''
               (event_nanoid env) (now_log env) db))"

record ApproveResult =
  success :: bool
  ap_userId :: "string option"
  ap_channel :: "string option"

text \<open>
  approvePairing reads the clock in getPairingCode, in consumePairingCode, in
  addToAllowlist and in logEvent, and draws one nanoid for the event.
\<close>

record ApproveEnv =
  now_get :: int
  now_consume :: int
  now_add :: int
  now_event :: int
  approve_nanoid :: string

definition approvePairing :: "ApproveEnv \<Rightarrow> string \<Rightarrow> Database \<Rightarrow> ApproveResult \<times> Database" where
  "approvePairing env c db =
     (case getPairingCode (now_get env) c db of
        None \<Rightarrow> (\<lparr>success = False, ap_userId = None, ap_channel = None\<rparr>, db)
      | Some entry \<Rightarrow>
          (case consumePairingCode (now_consume env) c db of
             (True, db1) \<Rightarrow>
               (\<lparr>success = True, ap_userId = Some (pc_userId entry),
                 ap_channel = Some (pc_channel entry)\<rparr>,
                logEvent pairing_approved (pc_userId entry) (pc_channel entry) (''Code: '' @ c)
                  (approve_nanoid env) (now_event env)
                  (addToAllowlist (now_add env) (pc_userId entry) (pc_channel entry) db1))
           | (False, db1) \<Rightarrow>
               (\<lparr>success = False, ap_userId = None, ap_channel = None\<rparr>, db1)))"

text \<open>
  The statements that touch pairing_codes, as the atomic steps of a run. Within one
  process approvePairing is synchronous and runs without interruption (the step
  \<open>Approve\<close>). Processes that share the store interleave at the level of single
  statements: an approvePairing call of another process whose statements are separated
  by foreign ones is the step \<open>Get\<close> followed later by the step \<open>Consume\<close>, and it
  reports success exactly when both succeed.
\<close>

datatype action =
    Save PairingCode
  | Get int string
  | Consume int string
  | Approve ApproveEnv string
  | Cleanup int

text \<open>Whether the step succeeded: an insert that was accepted, a row found, a code
  consumed, an approval granted.\<close>

fun apply_action :: "action \<Rightarrow> Database \<Rightarrow> bool \<times> Database" where
  "apply_action (Save pc) db =
     (case savePairingCode pc db of Inl e \<Rightarrow> (False, db) | Inr db' \<Rightarrow> (True, db'))"
| "apply_action (Get now c) db = (getPairingCode now c db \<noteq> None, db)"
| "apply_action (Consume now c) db = consumePairingCode now c db"
| "apply_action (Approve env c) db =
     (case approvePairing env c db of (r, db') \<Rightarrow> (success r, db'))"
| "apply_action (Cleanup now) db = (True, cleanupPairingCodes now db)"

fun run_actions :: "action list \<Rightarrow> Database \<Rightarrow> bool list \<times> Database" where
  "run_actions [] db = ([], db)"
| "run_actions (a # as) db =
     (case apply_action a db of
        (r, db') \<Rightarrow> (case run_actions as db' of (rs, db'') \<Rightarrow> (r # rs, db'')))"

text \<open>A consumption attempt for code \<open>c\<close>: a consumePairingCode or approvePairing call.\<close>

fun attempts :: "string \<Rightarrow> action \<Rightarrow> bool" where
  "attempts c (Consume now c') = (c' = c)"
| "attempts c (Approve env c') = (c' = c)"
| "attempts c _ = False"

fun saves :: "string \<Rightarrow> action \<Rightarrow> bool" where
  "saves c (Save pc) = (pc_code pc = c)"
| "saves c _ = False"

text \<open>The clock readings by which a step decides whether code \<open>c\<close> has expired are
  not before \<open>t\<close>.\<close>

fun not_before :: "string \<Rightarrow> int \<Rightarrow> action \<Rightarrow> bool" where
  "not_before c t (Consume now c') = (c' \<noteq> c \<or> t \<le> now)"
| "not_before c t (Approve env c') = (c' \<noteq> c \<or> (t \<le> now_get env \<and> t \<le> now_consume env))"
| "not_before c t _ = True"

text \<open>
  A code that can no longer be consumed at time \<open>t\<close>: it has no row (never saved, or
  cleaned up), or its row is used, or its expiry has passed.
\<close>

definition dead :: "string \<Rightarrow> int \<Rightarrow> Database \<Rightarrow> bool" where
  "dead c t db =
     (case pairing_codes db c of
        None \<Rightarrow> True
      | Some row \<Rightarrow> used row \<or> expires_at row \<le> t)"

text \<open>A code with no row or a used row: it cannot be consumed at any time.\<close>

definition spent :: "string \<Rightarrow> Database \<Rightarrow> bool" where
  "spent c db = (case pairing_codes db c of None \<Rightarrow> True | Some row \<Rightarrow> used row)"

text \<open>The results of the consumption attempts for \<open>c\<close> in a run.\<close>

definition attempt_results :: "string \<Rightarrow> action list \<Rightarrow> Database \<Rightarrow> bool list" where
  "attempt_results c as db =
     map snd (filter (\<lambda>ar. attempts c (fst ar)) (zip as (fst (run_actions as db))))"

text \<open>The results of the savePairingCode calls for \<open>c\<close> in a run: True where the
  INSERT was accepted, which the primary key allows only while \<open>c\<close> has no row.\<close>

definition save_results :: "string \<Rightarrow> action list \<Rightarrow> Database \<Rightarrow> bool list" where
  "save_results c as db =
     map snd (filter (\<lambda>ar. saves c (fst ar)) (zip as (fst (run_actions as db))))"

section \<open>ContainerRunner (src/gate.ts)\<close>

text \<open>
  runInSandbox and runWithNetwork build an argument array and hand it to spawnSync; the
  model returns that call (program, arguments, working directory, timeout). What the
  spawned process prints, the creation of a missing workspace directory and the removal
  of the container after a spawn error are outside the model. \<open>nid\<close> is the value of
  nanoid(8).
\<close>

record SpawnCall =
  program :: string
  args :: "string list"
  cwd :: "string option"
  timeout :: int

definition runInSandbox :: "Config \<Rightarrow> string \<Rightarrow> string \<Rightarrow> string \<Rightarrow> int \<Rightarrow> SpawnCall" where
  "runInSandbox config nid command workspacePath timeoutMs =
     (if runtime (container (security config)) = no_runtime then
        \<lparr>program = ''sh'', args = [''-c'', command], cwd = Some workspacePath,
         timeout = timeoutMs\<rparr>
      else
        (let containerName = ''mybot-sandbox-'' @ nid;
             cfg = container (security config)
         in \<lparr>program = ''docker'',
             args = [''run'',
                     ''--rm'',
                     ''--name'', containerName,
                     ''--memory'', memoryLimit cfg,
                     ''--cpus'', cpuLimit cfg,
                     ''--network'', ''none'',
                     ''--read-only'',
                     ''--tmpfs'', ''/tmp:size=100m'',
                     ''-v'', workspacePath @ '':/workspace:rw'',
                     ''--workdir'', ''/workspace'',
                     ''--user'', ''1000:1000'',
                     ''--security-opt'', ''no-new-privileges'',
                     image cfg,
                     ''sh'', ''-c'', command],
             cwd = None, timeout = timeoutMs\<rparr>))"

definition runWithNetwork :: "Config \<Rightarrow> string \<Rightarrow> string \<Rightarrow> string \<Rightarrow> int \<Rightarrow> SpawnCall" where
  "runWithNetwork config nid command workspacePath timeoutMs =
     (if runtime (container (security config)) = no_runtime then
        runInSandbox config nid command workspacePath timeoutMs
      else
        (let containerName = ''mybot-net-'' @ nid;
             cfg = container (security config)
         in \<lparr>program = ''docker'',
             args = [''run'',
                     ''--rm'',
                     ''--name'', containerName,
                     ''--memory'', memoryLimit cfg,
                     ''--cpus'', cpuLimit cfg,
                     ''--tmpfs'', ''/tmp:size=100m'',
                     ''-v'', workspacePath @ '':/workspace:rw'',
                     ''--workdir'', ''/workspace'',
                     ''--user'', ''1000:1000'',
                     ''--security-opt'', ''no-new-privileges'',
                     image cfg,
                     ''sh'', ''-c'', command],
             cwd = None, timeout = timeoutMs\<rparr>))"

text \<open>An option followed by its value, somewhere in an argument list.\<close>

fun has_option :: "string \<Rightarrow> string \<Rightarrow> string list \<Rightarrow> bool" where
  "has_option f v (a # b # rest) = ((a = f \<and> b = v) \<or> has_option f v (b # rest))"
| "has_option f v _ = False"

section \<open>AgentLoop (agent loop source, src/unnamed/part_000)\<close>

record ChatMessage =
  role :: Role
  content :: string

text \<open>A tool call carries its arguments as an object (Record<string, unknown>); the
  values read by the tools modelled here are strings and numbers.\<close>

datatype ArgValue = Str string | Num int

type_synonym Arguments = "string \<rightharpoonup> ArgValue"

record ToolCall =
  tc_id :: string
  tc_name :: string
  tc_arguments :: Arguments

record LLMResponse =
  resp_content :: string
  toolCalls :: "ToolCall list option"

record ToolContext =
  ctx_sessionId :: string
  ctx_userId :: string
  ctx_channel :: string
  sandboxed :: bool
  containerWorkspace :: "string option"

text \<open>
  How a promise settles: it resolves with a text or rejects with an Error of some
  message after so many milliseconds, or it never settles.
\<close>

datatype ToolRun =
    Resolves nat string
  | Rejects nat string
  | Hangs

text \<open>
  What the call tool.execute(args, ctx) does. It first runs synchronously for some
  milliseconds: the body of an async function runs inside the call up to the first
  await that has to wait, and work done by blocking calls such as spawnSync happens
  here, with the event loop stopped. Then the call either throws or returns its
  promise. The milliseconds in the ToolRun of the returned promise are counted from
  that return.
\<close>

datatype Execution =
    Throws nat string
  | Returns nat ToolRun

text \<open>Of a registered tool the loop uses the name and the execute function (the
  description and the parameter schema only travel to the model).\<close>

record Tool =
  tool_name :: string
  execute :: "Arguments \<Rightarrow> ToolContext \<Rightarrow> Execution"

record IncomingMessage =
  in_id :: string
  sender :: string
  groupId :: "string option"
  text_of :: string
  in_channel :: string
  in_timestamp :: int

text \<open>
  A call of LLMClient.chat either returns a response or throws (llm.ts rethrows the
  provider's error after its retries). The model call is a parameter: given the number
  of the call within the turn and the messages sent, what the provider answers.
\<close>

type_synonym LLM = "nat \<Rightarrow> ChatMessage list \<Rightarrow> error + LLMResponse"

definition estimateTokens :: "string \<Rightarrow> int" where
  "estimateTokens t = int ((length t + 3) div 4)"

definition estimateMessagesTokens :: "ChatMessage list \<Rightarrow> int" where
  "estimateMessagesTokens msgs = foldl (\<lambda>total msg. total + estimateTokens (content msg)) 0 msgs"

text \<open>JavaScript truthiness of an optional string: undefined and the empty string are
  falsy.\<close>

definition truthy :: "string option \<Rightarrow> bool" where
  "truthy s = (case s of None \<Rightarrow> False | Some v \<Rightarrow> v \<noteq> [])"

text \<open>
  getOrCreateSession; \<open>nid\<close> is the nanoid() of a new session, \<open>now1\<close> and \<open>now2\<close> the
  two readings of Date.now() for createdAt and lastActiveAt.
\<close>

definition getOrCreateSession ::
  "string \<Rightarrow> string \<Rightarrow> string option \<Rightarrow> Config \<Rightarrow> string \<Rightarrow> int \<Rightarrow> int \<Rightarrow> Database
     \<Rightarrow> Session \<times> Database" where
  "getOrCreateSession userId chan gid config nid now1 now2 db =
     (case getSessionByUser db userId chan of
        Some existing \<Rightarrow>
          if \<not> truthy gid then (existing, db)
          else
            (let session = \<lparr>s_id = nid, s_userId = userId, s_channel = chan, s_groupId = gid,
                            createdAt = now1, lastActiveAt = now2,
                            model = defaultModel config, systemPrompt = None\<rparr>
             in (session, upsertSession session db))
      | None \<Rightarrow>
          (let session = \<lparr>s_id = nid, s_userId = userId, s_channel = chan, s_groupId = gid,
                          createdAt = now1, lastActiveAt = now2,
                          model = defaultModel config, systemPrompt = None\<rparr>
           in (session, upsertSession session db)))"

definition MAX_HISTORY_TOKENS :: int where
  "MAX_HISTORY_TOKENS = 8000"

definition MAX_ITERATIONS :: nat where
  "MAX_ITERATIONS = 10"

definition TOOL_TIMEOUT :: nat where
  "TOOL_TIMEOUT = 120000"

text \<open>History rows of role user or assistant as chat messages, and the current user
  message pushed unless the last message already has its text.\<close>

definition to_chat_messages :: "Message list \<Rightarrow> ChatMessage list" where
  "to_chat_messages history =
     map (\<lambda>m. \<lparr>role = m_role m, content = m_content m\<rparr>)
       (filter (\<lambda>m. m_role m = user \<or> m_role m = assistant) history)"

definition ensure_current :: "ChatMessage list \<Rightarrow> string \<Rightarrow> ChatMessage list" where
  "ensure_current chatMessages txt =
     (if chatMessages = [] then chatMessages @ [\<lparr>role = user, content = txt\<rparr>]
      else if content (last chatMessages) \<noteq> txt then
        chatMessages @ [\<lparr>role = user, content = txt\<rparr>]
      else chatMessages)"

text \<open>
  The truncation loop: while more than two messages are left and the estimate is over
  the budget, shift the first message off and subtract its estimate.
\<close>

fun truncate_loop :: "int \<Rightarrow> ChatMessage list \<Rightarrow> int \<Rightarrow> ChatMessage list \<times> int" where
  "truncate_loop systemTokens [] historyTokens = ([], historyTokens)"
| "truncate_loop systemTokens (removed # rest) historyTokens =
     (if length (removed # rest) > 2 \<and> systemTokens + historyTokens > MAX_HISTORY_TOKENS then
        truncate_loop systemTokens rest (historyTokens - estimateTokens (content removed))
      else (removed # rest, historyTokens))"

definition enforce_budget :: "string \<Rightarrow> ChatMessage list \<Rightarrow> ChatMessage list" where
  "enforce_budget prompt chatMessages =
     (let systemTokens = estimateTokens prompt;
          historyTokens = estimateMessagesTokens chatMessages
      in if systemTokens + historyTokens > MAX_HISTORY_TOKENS then
           fst (truncate_loop systemTokens chatMessages historyTokens)
         else chatMessages)"

text \<open>How an awaited expression ends: with a value, or with a thrown Error of some
  message.\<close>

datatype Settled = Fulfilled string | Thrown string

text \<open>
  Promise.race([tool.execute(...), new Promise(... setTimeout(reject, TOOL_TIMEOUT))]):
  the elements of the array are evaluated in order, so the timer is created when
  execute has returned its promise, and it rejects with "Tool execution timeout"
  TOOL_TIMEOUT ms after that. The tool's promise wins when it settles within those
  milliseconds, the last one included: what settles it was scheduled before the timer
  of the race was created, and so runs first.
\<close>

definition race_timeout :: "ToolRun \<Rightarrow> Settled" where
  "race_timeout run =
     (case run of
        Resolves ms v \<Rightarrow> if ms \<le> TOOL_TIMEOUT then Fulfilled v else Thrown ''Tool execution timeout''
      | Rejects ms msg \<Rightarrow> if ms \<le> TOOL_TIMEOUT then Thrown msg else Thrown ''Tool execution timeout''
      | Hangs \<Rightarrow> Thrown ''Tool execution timeout'')"

text \<open>
  The try block around one tool call: execute is called first; if it throws, the catch
  takes the error and no timer is created; otherwise the returned promise is raced
  against the timer. The time execute spent before it returned does not enter the
  race.
\<close>

definition await_tool :: "Execution \<Rightarrow> Settled" where
  "await_tool ex =
     (case ex of
        Throws ms msg \<Rightarrow> Thrown msg
      | Returns ms promise \<Rightarrow> race_timeout promise)"

text \<open>One pass of the for loop over the tool calls: what it pushes for the call.\<close>

definition run_tool_call :: "(string \<rightharpoonup> Tool) \<Rightarrow> ToolContext \<Rightarrow> ToolCall \<Rightarrow> string" where
  "run_tool_call tools toolCtx tc =
     (case tools (tc_name tc) of
        None \<Rightarrow> ''Tool \"'' @ tc_name tc @ ''\" not found.''
      | Some t \<Rightarrow>
          (case await_tool (execute t (tc_arguments tc) toolCtx) of
             Fulfilled result \<Rightarrow> ''['' @ tc_name tc @ '' result]: '' @ result
           | Thrown errMsg \<Rightarrow>
               if errMsg = ''Tool execution timeout'' then
                 ''['' @ tc_name tc @ '' error]: Tool timed out after 120 seconds''
               else ''['' @ tc_name tc @ '' error]: '' @ errMsg))"

fun execute_tools ::
  "(string \<rightharpoonup> Tool) \<Rightarrow> ToolContext \<Rightarrow> ToolCall list \<Rightarrow> string list \<Rightarrow> string list" where
  "execute_tools tools toolCtx [] toolResultParts = toolResultParts"
| "execute_tools tools toolCtx (tc # tcs) toolResultParts =
     execute_tools tools toolCtx tcs (toolResultParts @ [run_tool_call tools toolCtx tc])"

text \<open>Array.join.\<close>

fun join :: "string \<Rightarrow> string list \<Rightarrow> string" where
  "join sep [] = []"
| "join sep [x] = x"
| "join sep (x # y # zs) = x @ sep @ join sep (y # zs)"

text \<open>One round with tool calls: the assistant turn and the single user turn holding
  all results are appended to the running context.\<close>

definition tool_round ::
  "(string \<rightharpoonup> Tool) \<Rightarrow> ToolContext \<Rightarrow> ChatMessage list \<Rightarrow> string \<Rightarrow> ToolCall list
     \<Rightarrow> ChatMessage list" where
  "tool_round tools toolCtx currentMessages respContent calls =
     currentMessages
       @ [\<lparr>role = assistant,
           content = (if respContent \<noteq> [] then respContent else ''(using tools...)'')\<rparr>]
       @ [\<lparr>role = user,
           content = join [CHR 0x0A, CHR 0x0A] (execute_tools tools toolCtx calls [])\<rparr>]"

text \<open>
  The while loop of process; the result is finalResponse when the loop is left (the
  empty string when the iteration cap ends it), or the error a model call threw.
\<close>

function agent_loop ::
  "LLM \<Rightarrow> (string \<rightharpoonup> Tool) \<Rightarrow> ToolContext \<Rightarrow> nat \<Rightarrow> ChatMessage list \<Rightarrow> error + string" where
  "agent_loop llm tools toolCtx iterations currentMessages =
     (if iterations < MAX_ITERATIONS then
        (case llm (iterations + 1) currentMessages of
           Inl e \<Rightarrow> Inl e
         | Inr response \<Rightarrow>
             (case toolCalls response of
                None \<Rightarrow> Inr (resp_content response)
              | Some [] \<Rightarrow> Inr (resp_content response)
              | Some (tc # tcs) \<Rightarrow>
                  agent_loop llm tools toolCtx (iterations + 1)
                    (tool_round tools toolCtx currentMessages (resp_content response) (tc # tcs))))
      else Inr [])"
  by pat_completeness auto
termination
  by (relation "measure (\<lambda>(llm, tools, toolCtx, iterations, currentMessages).
        MAX_ITERATIONS - iterations)") auto

declare agent_loop.simps [simp del]




definition FALLBACK :: string where
  "FALLBACK = ''(I ran into an issue processing your request. Please try again.)''"

text \<open>
  What one call of process reads from outside: the ids nanoid() returns, the readings
  of Date.now(), the rendered system prompt (the template with the time and the
  memories filled in; only its length enters the code modelled here), the model and
  the tool registry. Tools act on tables and files that are not part of this model
  (memory, cron jobs, the vault), so the store is not threaded through the loop.
\<close>

record ProcessEnv =
  session_nanoid :: string
  user_msg_nanoid :: string
  assistant_msg_nanoid :: string
  now_createdAt :: int
  now_lastActiveAt :: int
  now_touch :: int
  now_reply :: int
  rendered_prompt :: string
  llm_of :: LLM
  tools_of :: "string \<rightharpoonup> Tool"

definition resolve_session ::
  "Config \<Rightarrow> ProcessEnv \<Rightarrow> IncomingMessage \<Rightarrow> string option \<Rightarrow> Database \<Rightarrow> Session \<times> Database" where
  "resolve_session config env incoming sid db =
     (let created =
            getOrCreateSession (sender incoming) (in_channel incoming) (groupId incoming) config
              (session_nanoid env) (now_createdAt env) (now_lastActiveAt env) db
      in case sid of
           None \<Rightarrow> created
         | Some v \<Rightarrow>
             if v = [] then created
             else (case getSession db v of Some s \<Rightarrow> (s, db) | None \<Rightarrow> created))"

text \<open>
  process up to the loop: the session is resolved and touched, the user message is
  saved, the history is read back and made the context of the first model call, and
  the tool context is built.
\<close>

record Turn =
  turn_session :: Session
  turn_db :: Database
  turn_messages :: "ChatMessage list"
  turn_toolCtx :: ToolContext

definition prepare_turn ::
  "Config \<Rightarrow> ProcessEnv \<Rightarrow> IncomingMessage \<Rightarrow> string option \<Rightarrow> Database \<Rightarrow> Turn" where
  "prepare_turn config env incoming sid db =
     (case resolve_session config env incoming sid db of
        (session0, db0) \<Rightarrow>
          (let session = session0\<lparr>lastActiveAt := now_touch env\<rparr>;
               db1 = upsertSession session db0;
               userMsg = \<lparr>m_id = user_msg_nanoid env, sessionId = s_id session, m_role = user,
                          m_content = text_of incoming, m_timestamp = in_timestamp incoming,
                          m_channel = in_channel incoming, m_userId = sender incoming,
                          m_groupId = groupId incoming\<rparr>;
               db2 = saveMessage userMsg db1;
               history = getSessionMessages db2 (s_id session) 40;
               chatMessages = enforce_budget (rendered_prompt env)
                                (ensure_current (to_chat_messages history) (text_of incoming));
               toolCtx = \<lparr>ctx_sessionId = s_id session, ctx_userId = sender incoming,
                          ctx_channel = in_channel incoming,
                          sandboxed = (runtime (container (security config)) \<noteq> no_runtime),
                          containerWorkspace =
                            Some (sandboxWorkspace (container (security config)) @ ''/''
                                    @ s_id session)\<rparr>
           in \<lparr>turn_session = session, turn_db = db2, turn_messages = chatMessages,
               turn_toolCtx = toolCtx\<rparr>))"

text \<open>
  process: the loop on the prepared context; when it ends, an empty finalResponse is
  replaced by the fallback text, the assistant message is saved and the text returned.
  An error thrown by a model call leaves process at that point.
\<close>

definition process ::
  "Config \<Rightarrow> ProcessEnv \<Rightarrow> IncomingMessage \<Rightarrow> string option \<Rightarrow> Database
     \<Rightarrow> (error + string) \<times> Database" where
  "process config env incoming sid db =
     (let turn = prepare_turn config env incoming sid db
      in case agent_loop (llm_of env) (tools_of env) (turn_toolCtx turn) 0 (turn_messages turn) of
           Inl e \<Rightarrow> (Inl e, turn_db turn)
         | Inr response \<Rightarrow>
             (let finalResponse = (if response = [] then FALLBACK else response);
                  assistantMsg = \<lparr>m_id = assistant_msg_nanoid env,
                                  sessionId = s_id (turn_session turn),
                                  m_role = assistant, m_content = finalResponse,
                                  m_timestamp = now_reply env,
                                  m_channel = in_channel incoming,
                                  m_userId = sender incoming,
                                  m_groupId = groupId incoming\<rparr>
              in (Inr finalResponse, saveMessage assistantMsg (turn_db turn))))"

section \<open>Bash tool (tool definitions, src/unnamed/part_003)\<close>

text \<open>
  What spawnSync returns for a call, and for how long it blocked: the captured output
  (null when the process could not be started), the exit status (null when the process
  was killed, as it is when it outlives the timeout of the call), and the milliseconds
  until spawnSync returned. The behaviour of the spawned process is a parameter.
\<close>

record SpawnResult =
  sp_stdout :: "string option"
  sp_stderr :: "string option"
  sp_status :: "int option"
  sp_elapsed :: nat

text \<open>What runInSandbox makes of it: stdout ?? "", stderr ?? "", status ?? 1.\<close>

record SandboxResult =
  stdout :: string
  stderr :: string
  exitCode :: int

definition sandbox_result :: "SpawnResult \<Rightarrow> SandboxResult" where
  "sandbox_result r =
     \<lparr>stdout = (case sp_stdout r of Some v \<Rightarrow> v | None \<Rightarrow> []),
      stderr = (case sp_stderr r of Some v \<Rightarrow> v | None \<Rightarrow> []),
      exitCode = (case sp_status r of Some v \<Rightarrow> v | None \<Rightarrow> 1)\<rparr>"

text \<open>A number in a template string, and String.trim on ASCII white space.\<close>

function digits :: "nat \<Rightarrow> string" where
  "digits n = (if n < 10 then [char_of (48 + n)] else digits (n div 10) @ [char_of (48 + n mod 10)])"
  by pat_completeness auto
termination
  by (relation "measure (\<lambda>n. n)") auto

declare digits.simps [simp del]

definition show_int :: "int \<Rightarrow> string" where
  "show_int i = (if i < 0 then CHR ''-'' # digits (nat (- i)) else digits (nat i))"

definition is_space :: "char \<Rightarrow> bool" where
  "is_space c = (c \<in> set [CHR 0x20, CHR 0x09, CHR 0x0A, CHR 0x0B, CHR 0x0C, CHR 0x0D])"

definition trim :: "string \<Rightarrow> string" where
  "trim t = rev (dropWhile is_space (rev (dropWhile is_space t)))"

text \<open>
  makeBashTool. execute is an async function whose only await is on runInSandbox, and
  runInSandbox does its work in spawnSync: the whole run of the command happens
  synchronously inside the call of execute, and the promise it returns resolves at
  once. The command is limited by the timeout handed to spawnSync, which is the
  timeout argument of the tool call in seconds (30 when it is missing). The arguments
  are taken to have the types of the tool's schema; \<open>spawn\<close> is what spawnSync returns
  for a call and \<open>nid\<close> the value of nanoid(8) in runInSandbox.
\<close>

definition makeBashTool :: "(SpawnCall \<Rightarrow> SpawnResult) \<Rightarrow> Config \<Rightarrow> string \<Rightarrow> Tool" where
  "makeBashTool spawn config nid =
     \<lparr>tool_name = ''bash'',
      execute = (\<lambda>arguments ctx.
        let command = (case arguments ''command'' of Some (Str v) \<Rightarrow> v | _ \<Rightarrow> []);
            timeoutMs = (case arguments ''timeout'' of Some (Num v) \<Rightarrow> v | _ \<Rightarrow> 30) * 1000;
            workspace = (case containerWorkspace ctx of
                           Some w \<Rightarrow> w
                         | None \<Rightarrow> ''/tmp/mybot-'' @ ctx_sessionId ctx);
            spawned = spawn (runInSandbox config nid command workspace timeoutMs);
            result = sandbox_result spawned;
            output = (if stdout result \<noteq> [] then stdout result else [])
                       @ (if stderr result \<noteq> [] then CHR 0x0A # ''STDERR: '' @ stderr result
                          else [])
                       @ (if exitCode result \<noteq> 0
                          then CHR 0x0A # ''Exit code: '' @ show_int (exitCode result)
                          else [])
        in Returns (sp_elapsed spawned)
             (Resolves 0 (if trim output = [] then ''(no output)'' else trim output)))\<rparr>"

section \<open>SwarmOrchestrator (src/orchestrator.ts)\<close>

record SwarmAgent =
  ag_id :: string
  ag_name :: string
  ag_role :: string
  ag_systemPrompt :: string
  ag_model :: string
  ag_tools :: "string list"

text \<open>Partial<SwarmAgent>: every field may be missing.\<close>

record PartialSwarmAgent =
  p_id :: "string option"
  p_name :: "string option"
  p_role :: "string option"
  p_systemPrompt :: "string option"
  p_model :: "string option"
  p_tools :: "string list option"

text \<open>
  What a swarm run reads from outside: the nanoid() drawn for the i-th agent, the
  model's reply to the decomposition prompt (or the error it threw), the outcome of
  matching and parsing that reply as a JSON array of role and systemPrompt (None when
  the match or JSON.parse fails), how the model call of the i-th agent settles, and the
  model's reply to the synthesis message.
\<close>

record SwarmEnv =
  swarm_nanoid :: "nat \<Rightarrow> string"
  decompose_reply :: "error + string"
  parse_roles :: "string \<Rightarrow> (string \<times> string) list option"
  agent_run :: "nat \<Rightarrow> SwarmAgent \<Rightarrow> ToolRun"
  synthesis_reply :: "string \<Rightarrow> error + string"

definition AGENT_TIMEOUT :: nat where
  "AGENT_TIMEOUT = 60000"

definition or_else :: "'a option \<Rightarrow> 'a \<Rightarrow> 'a" where
  "or_else v d = (case v of None \<Rightarrow> d | Some x \<Rightarrow> x)"

definition buildCustomAgents :: "Config \<Rightarrow> SwarmEnv \<Rightarrow> PartialSwarmAgent list \<Rightarrow> SwarmAgent list" where
  "buildCustomAgents config env partial =
     map (\<lambda>ia. case ia of (i, a) \<Rightarrow>
            \<lparr>ag_id = or_else (p_id a) (swarm_nanoid env i),
             ag_name = or_else (p_name a) (or_else (p_role a) ''agent''),
             ag_role = or_else (p_role a) ''general'',
             ag_systemPrompt = or_else (p_systemPrompt a) ''You are a helpful assistant.'',
             ag_model = or_else (p_model a) (defaultModel config),
             ag_tools = or_else (p_tools a) []\<rparr>)
       (enumerate 0 partial)"

definition fallback_agent :: "Config \<Rightarrow> SwarmEnv \<Rightarrow> SwarmAgent" where
  "fallback_agent config env =
     \<lparr>ag_id = swarm_nanoid env 0, ag_name = ''general'', ag_role = ''general'',
      ag_systemPrompt = ''You are a helpful assistant. Complete the assigned task thoroughly.'',
      ag_model = defaultModel config, ag_tools = []\<rparr>"

definition decomposeObjective :: "Config \<Rightarrow> SwarmEnv \<Rightarrow> SwarmAgent list" where
  "decomposeObjective config env =
     (case decompose_reply env of
        Inl e \<Rightarrow> [fallback_agent config env]
      | Inr reply \<Rightarrow>
          (case parse_roles env reply of
             None \<Rightarrow> [fallback_agent config env]
           | Some parsed \<Rightarrow>
               map (\<lambda>ia. case ia of (i, (r, sp)) \<Rightarrow>
                      \<lparr>ag_id = swarm_nanoid env i, ag_name = r, ag_role = r,
                       ag_systemPrompt = sp, ag_model = defaultModel config, ag_tools = []\<rparr>)
                 (enumerate 0 parsed)))"

text \<open>Promise.race of an agent's model call against the timer that rejects with
  "Agent timeout" after AGENT_TIMEOUT ms (runAgent is called first and returns its
  promise at its first await, then the timer is created; a promise settling in the very
  millisecond of the timer wins); Promise.allSettled then waits for every race,
  whatever the others did.\<close>

definition race_agent :: "ToolRun \<Rightarrow> Settled" where
  "race_agent run =
     (case run of
        Resolves ms v \<Rightarrow> if ms \<le> AGENT_TIMEOUT then Fulfilled v else Thrown ''Agent timeout''
      | Rejects ms msg \<Rightarrow> if ms \<le> AGENT_TIMEOUT then Thrown msg else Thrown ''Agent timeout''
      | Hangs \<Rightarrow> Thrown ''Agent timeout'')"

definition agent_text :: "Settled \<Rightarrow> string" where
  "agent_text settled =
     (case settled of
        Fulfilled v \<Rightarrow> v
      | Thrown msg \<Rightarrow>
          if msg = ''Agent timeout'' then ''Agent timed out after 60 seconds''
          else ''Error: '' @ msg)"

text \<open>
  agentResults is a plain object used as a dictionary: assigning to a key that exists
  replaces its value in place, a new key is added at the end. (Property names are
  taken to be ordinary strings, kept in insertion order.)
\<close>

fun record_set :: "string \<Rightarrow> string \<Rightarrow> (string \<times> string) list \<Rightarrow> (string \<times> string) list" where
  "record_set k v [] = [(k, v)]"
| "record_set k v ((k', v') # rest) =
     (if k' = k then (k, v) # rest else (k', v') # record_set k v rest)"

fun collect_results ::
  "SwarmEnv \<Rightarrow> SwarmAgent list \<Rightarrow> nat \<Rightarrow> (string \<times> string) list \<Rightarrow> (string \<times> string) list" where
  "collect_results env [] i agentResults = agentResults"
| "collect_results env (agent # rest) i agentResults =
     collect_results env rest (i + 1)
       (record_set (ag_role agent) (agent_text (race_agent (agent_run env i agent))) agentResults)"

definition result_section :: "string \<times> string \<Rightarrow> string" where
  "result_section rr = ''## '' @ toUpperCase (fst rr) @ [CHR 0x0A] @ snd rr"

definition results_summary :: "(string \<times> string) list \<Rightarrow> string" where
  "results_summary results =
     join ([CHR 0x0A, CHR 0x0A] @ ''---'' @ [CHR 0x0A, CHR 0x0A]) (map result_section results)"

text \<open>The content of the one user message synthesize sends to the model.\<close>

definition synthesis_input :: "string \<Rightarrow> (string \<times> string) list \<Rightarrow> string" where
  "synthesis_input objective results =
     ''Original objective: '' @ objective @ [CHR 0x0A, CHR 0x0A]
     @ ''The following specialized agents completed parts of this task:''
     @ [CHR 0x0A, CHR 0x0A] @ results_summary results @ [CHR 0x0A, CHR 0x0A]
     @ ''Synthesize these results into a single, coherent, well-organized response that fully addresses the original objective. Remove redundancy and ensure the output is polished.''"

definition roster :: "Config \<Rightarrow> SwarmEnv \<Rightarrow> PartialSwarmAgent list option \<Rightarrow> SwarmAgent list" where
  "roster config env customAgents =
     (case customAgents of
        None \<Rightarrow> decomposeObjective config env
      | Some [] \<Rightarrow> decomposeObjective config env
      | Some (a # as) \<Rightarrow> buildCustomAgents config env (a # as))"

definition SwarmOrchestrator_run ::
  "Config \<Rightarrow> SwarmEnv \<Rightarrow> string \<Rightarrow> PartialSwarmAgent list option \<Rightarrow> error + string" where
  "SwarmOrchestrator_run config env objective customAgents =
     (let agents = roster config env customAgents in
      if agents = [] then Inr ''Could not decompose the objective into sub-tasks.''
      else synthesis_reply env
             (synthesis_input objective (collect_results env agents 0 [])))"

section \<open>Example inputs\<close>

definition example_db :: Database where
  "example_db =
     \<lparr>pairing_codes = [''ABCDEF'' \<mapsto>
        \<lparr>user_id = ''mallory'', channel = ''telegram'', expires_at = 600000, used = False\<rparr>],
      allowlist = Map.empty, security_events = [], sessions = [], messages = []\<rparr>"

definition example_approve_env :: ApproveEnv where
  "example_approve_env =
     \<lparr>now_get = 30, now_consume = 31, now_add = 32, now_event = 33, approve_nanoid = ''ev2''\<rparr>"

definition example_later_steps :: "action list" where
  "example_later_steps =
     [Consume 20 ''ABCDEF'', Approve example_approve_env ''ABCDEF'', Cleanup 40,
      Get 50 ''ABCDEF'', Consume 60 ''ABCDEF'']"

text \<open>A later pairing request of another user for which generateCode draws the string
  ABCDEF again, and a run in which the first code is consumed, cleaned up and then
  issued and consumed a second time.\<close>

definition reissued_code :: PairingCode where
  "reissued_code =
     \<lparr>pc_code = ''ABCDEF'', pc_userId = ''eve'', pc_channel = ''telegram'',
      pc_expiresAt = 600045, pc_used = False\<rparr>"

definition example_reissue_steps :: "action list" where
  "example_reissue_steps =
     [Consume 10 ''ABCDEF'', Save reissued_code, Cleanup 40, Save reissued_code,
      Consume 50 ''ABCDEF'']"

definition example_config :: Config where
  "example_config =
     \<lparr>defaultModel = ''default-model'',
      channels = \<lparr>telegram = Some \<lparr>tg_enabled = True, token = ''token'',
                                     allowedUserIds = [''owner'']\<rparr>,
                  whatsapp = None\<rparr>,
      security = \<lparr>dmPolicy = pairing, pairingCodeLength = 6,
                  container = \<lparr>runtime = docker, image = ''mybot-sandbox'',
                               memoryLimit = ''512m'', cpuLimit = ''0.5'',
                               sandboxWorkspace = ''/data/workspaces''\<rparr>\<rparr>\<rparr>"

definition example_strict_config :: Config where
  "example_strict_config =
     example_config\<lparr>security := (security example_config)\<lparr>dmPolicy := strict\<rparr>\<rparr>"

definition example_gate_env :: GateEnv where
  "example_gate_env =
     \<lparr>random_byte = (\<lambda>i. if i = 0 then 0xAB else if i = 1 then 0xCD else 0xEF),
      event_nanoid = ''ev1'', now_issue = 1000, now_log = 1001\<rparr>"

definition empty_db :: Database where
  "empty_db =
     \<lparr>pairing_codes = Map.empty, allowlist = Map.empty, security_events = [],
      sessions = [], messages = []\<rparr>"





text \<open>
  A registry of five tools: one that returns its promise at once and resolves it 5 ms
  later with the text argument, one whose promise never settles, one whose promise
  rejects after 3 ms, one that throws inside the call, and one whose promise resolves
  in the very millisecond of the timer.
\<close>

definition echo_tool :: Tool where
  "echo_tool =
     \<lparr>tool_name = ''echo'',
      execute = (\<lambda>a c. Returns 0 (Resolves 5 (case a ''text'' of Some (Str v) \<Rightarrow> v | _ \<Rightarrow> [])))\<rparr>"

definition slow_tool :: Tool where
  "slow_tool = \<lparr>tool_name = ''slow'', execute = (\<lambda>a c. Returns 0 Hangs)\<rparr>"

definition broken_tool :: Tool where
  "broken_tool = \<lparr>tool_name = ''broken'', execute = (\<lambda>a c. Returns 1 (Rejects 3 ''boom''))\<rparr>"

definition crash_tool :: Tool where
  "crash_tool = \<lparr>tool_name = ''crash'', execute = (\<lambda>a c. Throws 2 ''bad arguments'')\<rparr>"

definition edge_tool :: Tool where
  "edge_tool = \<lparr>tool_name = ''edge'', execute = (\<lambda>a c. Returns 0 (Resolves 120000 ''just in time''))\<rparr>"

definition example_tools :: "string \<rightharpoonup> Tool" where
  "example_tools =
     [''echo'' \<mapsto> echo_tool, ''slow'' \<mapsto> slow_tool, ''broken'' \<mapsto> broken_tool,
      ''crash'' \<mapsto> crash_tool, ''edge'' \<mapsto> edge_tool]"

definition tool_call :: "string \<Rightarrow> Arguments \<Rightarrow> ToolCall" where
  "tool_call n a = \<lparr>tc_id = ''call-'' @ n, tc_name = n, tc_arguments = a\<rparr>"

definition example_calls :: "ToolCall list" where
  "example_calls =
     [tool_call ''echo'' [''text'' \<mapsto> Str ''hi''], tool_call ''nope'' Map.empty,
      tool_call ''slow'' Map.empty, tool_call ''broken'' Map.empty,
      tool_call ''crash'' Map.empty, tool_call ''edge'' Map.empty]"

text \<open>
  The bash tool of a runner on docker, a command that sleeps for 200 seconds and prints
  nothing, and the tool call that runs it with a limit of 300 seconds.
\<close>

definition sleeping :: "SpawnCall \<Rightarrow> SpawnResult" where
  "sleeping call =
     \<lparr>sp_stdout = Some [], sp_stderr = Some [], sp_status = Some 0, sp_elapsed = 200000\<rparr>"

definition bash_tools :: "string \<rightharpoonup> Tool" where
  "bash_tools = [''bash'' \<mapsto> makeBashTool sleeping example_config ''V1StGXR8'']"

definition sleep_call :: ToolCall where
  "sleep_call =
     \<lparr>tc_id = ''call-1'', tc_name = ''bash'',
      tc_arguments = [''command'' \<mapsto> Str ''sleep 200'', ''timeout'' \<mapsto> Num 300]\<rparr>"

definition example_ctx :: ToolContext where
  "example_ctx =
     \<lparr>ctx_sessionId = ''s1'', ctx_userId = ''alice'', ctx_channel = ''telegram'',
      sandboxed = True, containerWorkspace = Some ''/data/workspaces/s1''\<rparr>"






definition example_env :: "LLM \<Rightarrow> ProcessEnv" where
  "example_env m =
     \<lparr>session_nanoid = ''s1'', user_msg_nanoid = ''m1'', assistant_msg_nanoid = ''m2'',
      now_createdAt = 5001, now_lastActiveAt = 5002, now_touch = 5003, now_reply = 5900,
      rendered_prompt = ''system'', llm_of = m, tools_of = example_tools\<rparr>"


definition llm_direct :: LLM where
  "llm_direct n ms = Inr \<lparr>resp_content = ''Hello Alice'', toolCalls = None\<rparr>"

text \<open>Two messages of the same user in the same group, and what the two calls of
  process read from outside.\<close>

definition group_message_1 :: IncomingMessage where
  "group_message_1 =
     \<lparr>in_id = ''43'', sender = ''alice'', groupId = Some ''group-7'', text_of = ''hello'',
      in_channel = ''telegram'', in_timestamp = 5000\<rparr>"

definition group_message_2 :: IncomingMessage where
  "group_message_2 =
     \<lparr>in_id = ''44'', sender = ''alice'', groupId = Some ''group-7'', text_of = ''and then?'',
      in_channel = ''telegram'', in_timestamp = 9000\<rparr>"

definition second_env :: ProcessEnv where
  "second_env =
     \<lparr>session_nanoid = ''s2'', user_msg_nanoid = ''m3'', assistant_msg_nanoid = ''m4'',
      now_createdAt = 9001, now_lastActiveAt = 9002, now_touch = 9003, now_reply = 9900,
      rendered_prompt = ''system'', llm_of = llm_direct, tools_of = example_tools\<rparr>"

text \<open>Two custom agents given without a role (both get the default role), the first
  failing and the second answering; and three agents with roles of their own, the
  second never answering.\<close>

definition no_fields :: PartialSwarmAgent where
  "no_fields = \<lparr>p_id = None, p_name = None, p_role = None, p_systemPrompt = None,
                p_model = None, p_tools = None\<rparr>"

definition two_unnamed_agents :: "PartialSwarmAgent list" where
  "two_unnamed_agents =
     [no_fields\<lparr>p_systemPrompt := Some ''Research the topic.''\<rparr>,
      no_fields\<lparr>p_systemPrompt := Some ''Check the facts.''\<rparr>]"

definition three_agents :: "PartialSwarmAgent list" where
  "three_agents =
     [no_fields\<lparr>p_role := Some ''researcher''\<rparr>,
      no_fields\<lparr>p_role := Some ''analyst''\<rparr>,
      no_fields\<lparr>p_role := Some ''writer''\<rparr>]"

definition swarm_env :: "(nat \<Rightarrow> ToolRun) \<Rightarrow> SwarmEnv" where
  "swarm_env runs =
     \<lparr>swarm_nanoid = (\<lambda>i. ''agent-'' @ replicate i CHR ''i''),
      decompose_reply = Inr ''[]'',
      parse_roles = (\<lambda>s. Some []),
      agent_run = (\<lambda>i a. runs i),
      synthesis_reply = (\<lambda>msg. Inr msg)\<rparr>"

definition first_fails :: "nat \<Rightarrow> ToolRun" where
  "first_fails i = (if i = 0 then Rejects 10 ''rate limited'' else Resolves 900 ''All good.'')"

definition second_hangs :: "nat \<Rightarrow> ToolRun" where
  "second_hangs i =
     (if i = 0 then Resolves 800 ''Found it.''
      else if i = 1 then Hangs
      else Resolves 900 ''Written.'')"

section \<open>Properties of the rate limiter\<close>

lemma checks_in_window:
  assumes "limits rl u = Some \<lparr>count = c, resetAt = r\<rparr>"
    and "\<forall>t\<in>set ts. t < r"
    and "c \<le> maxRequests rl" and "c = min (int k) (maxRequests rl)"
  shows "fst (checks ts u rl) = map (window_answer (maxRequests rl) r) (enumerate k ts)
         \<and> limits (snd (checks ts u rl)) u =
             Some \<lparr>count = min (int (k + length ts)) (maxRequests rl), resetAt = r\<rparr>
         \<and> maxRequests (snd (checks ts u rl)) = maxRequests rl
         \<and> windowMs (snd (checks ts u rl)) = windowMs rl"
  using assms
proof (induction ts arbitrary: rl c k)
  case Nil
  then show ?case by simp
next
  case (Cons t ts)
  have tr: "t < r" using Cons.prems(2) by simp
  have rest: "\<forall>t\<in>set ts. t < r" using Cons.prems(2) by simp
  show ?case
  proof (cases "c < maxRequests rl")
    case True
    define rl' where "rl' = rl\<lparr>limits := (limits rl)(u \<mapsto> \<lparr>count = c + 1, resetAt = r\<rparr>)\<rparr>"
    have step: "RateLimiter_check t u rl = (\<lparr>allowed = True, retryAfter = None\<rparr>, rl')"
      using Cons.prems(1) tr True by (simp add: RateLimiter_check_def rl'_def)
    have kc: "int k < maxRequests rl" using True Cons.prems(4) by linarith
    have ck: "c = int k" using True Cons.prems(4) by linarith
    have mr: "maxRequests rl' = maxRequests rl" and wm: "windowMs rl' = windowMs rl"
      by (simp_all add: rl'_def)
    have IH: "fst (checks ts u rl') = map (window_answer (maxRequests rl') r) (enumerate (Suc k) ts)
         \<and> limits (snd (checks ts u rl')) u =
             Some \<lparr>count = min (int (Suc k + length ts)) (maxRequests rl'), resetAt = r\<rparr>
         \<and> maxRequests (snd (checks ts u rl')) = maxRequests rl'
         \<and> windowMs (snd (checks ts u rl')) = windowMs rl'"
    proof (rule Cons.IH [of rl' "c + 1" "Suc k"])
      show "limits rl' u = Some \<lparr>count = c + 1, resetAt = r\<rparr>" by (simp add: rl'_def)
      show "\<forall>t\<in>set ts. t < r" by (rule rest)
      show "c + 1 \<le> maxRequests rl'" using True by (simp add: rl'_def)
      show "c + 1 = min (int (Suc k)) (maxRequests rl')" using True ck by (simp add: rl'_def)
    qed
    have here: "window_answer (maxRequests rl) r (k, t) = \<lparr>allowed = True, retryAfter = None\<rparr>"
      using kc by (simp add: window_answer_def)
    show ?thesis
      using IH unfolding mr wm
      by (cases "checks ts u rl'") (simp add: step here)
  next
    case False
    have cN: "c = maxRequests rl" using False Cons.prems(3) by simp
    have step: "RateLimiter_check t u rl = (\<lparr>allowed = False, retryAfter = Some (r - t)\<rparr>, rl)"
      using Cons.prems(1) tr False by (simp add: RateLimiter_check_def)
    have kc: "\<not> int k < maxRequests rl" using cN Cons.prems(4) by linarith
    have IH: "fst (checks ts u rl) = map (window_answer (maxRequests rl) r) (enumerate (Suc k) ts)
         \<and> limits (snd (checks ts u rl)) u =
             Some \<lparr>count = min (int (Suc k + length ts)) (maxRequests rl), resetAt = r\<rparr>
         \<and> maxRequests (snd (checks ts u rl)) = maxRequests rl
         \<and> windowMs (snd (checks ts u rl)) = windowMs rl"
    proof (rule Cons.IH [of rl c "Suc k"])
      show "limits rl u = Some \<lparr>count = c, resetAt = r\<rparr>" by (rule Cons.prems(1))
      show "\<forall>t\<in>set ts. t < r" by (rule rest)
      show "c \<le> maxRequests rl" by (rule Cons.prems(3))
      show "c = min (int (Suc k)) (maxRequests rl)" using cN kc by simp
    qed
    have here: "window_answer (maxRequests rl) r (k, t) = \<lparr>allowed = False, retryAfter = Some (r - t)\<rparr>"
      using kc by (simp add: window_answer_def)
    show ?thesis
      using IH
      by (cases "checks ts u rl") (simp add: step here)
  qed
qed

text \<open>A check for one user leaves the entries of all other users, and the limits, as
  they were.\<close>

lemma check_other_identity:
  "v \<noteq> u \<Longrightarrow> limits (snd (RateLimiter_check t v rl)) u = limits rl u"
  "maxRequests (snd (RateLimiter_check t v rl)) = maxRequests rl"
  "windowMs (snd (RateLimiter_check t v rl)) = windowMs rl"
  by (simp_all add: RateLimiter_check_def open_window_def split: option.splits)

lemma open_window_entry:
  "window_closed rl u t0 \<Longrightarrow>
   RateLimiter_check t0 u rl =
     (\<lparr>allowed = True, retryAfter = None\<rparr>,
      rl\<lparr>limits := (limits rl)(u \<mapsto> \<lparr>count = 1, resetAt = t0 + windowMs rl\<rparr>)\<rparr>)"
  by (auto simp add: window_closed_def RateLimiter_check_def open_window_def
      split: option.splits)

lemma window_answer_retry:
  assumes "\<forall>t\<in>set ts. t0 \<le> t \<and> t < t0 + W"
    and "res \<in> set (map (window_answer N (t0 + W)) (enumerate k ts))"
    and "retryAfter res = Some d"
  shows "0 < d \<and> d \<le> W"
proof -
  from assms(2) obtain j t where jt: "(j, t) \<in> set (enumerate k ts)"
    and res: "res = window_answer N (t0 + W) (j, t)"
    by auto
  from jt have "t \<in> set ts" by (auto simp: in_set_enumerate_eq)
  with assms(1) have "t0 \<le> t" and "t < t0 + W" by auto
  moreover from res assms(3) have "d = t0 + W - t"
    by (auto simp: window_answer_def split: if_splits)
  ultimately show ?thesis by simp
qed

text \<open>
  C3 (amended to limits of at least one request). Let no window be open for the user at
  time \<open>t0\<close> (no entry, or resetAt reached), let maxRequests be \<open>N \<ge> 1\<close> and windowMs be
  \<open>W\<close>, and let every later call be made inside the window, at a time \<open>t\<close> with
  \<open>t0 \<le> t < t0 + W\<close>. Then the call at \<open>t0\<close> is allowed and stores count 1 and
  resetAt \<open>t0 + W\<close>; the k-th call of the window (counted from 0) is allowed exactly when
  \<open>k < N\<close>, and otherwise denied with retryAfter = resetAt - now, a value in \<open>(0, W]\<close>;
  afterwards the stored count is the number of calls capped at \<open>N\<close>, and resetAt is
  still \<open>t0 + W\<close>.
\<close>

theorem C3_fixed_window:
  assumes "1 \<le> maxRequests rl"
    and "window_closed rl u t0"
    and "\<forall>t\<in>set ts. t0 \<le> t \<and> t < t0 + windowMs rl"
  shows "RateLimiter_check t0 u rl =
           (\<lparr>allowed = True, retryAfter = None\<rparr>,
            rl\<lparr>limits := (limits rl)(u \<mapsto> \<lparr>count = 1, resetAt = t0 + windowMs rl\<rparr>)\<rparr>)
       \<and> fst (checks (t0 # ts) u rl) =
           map (window_answer (maxRequests rl) (t0 + windowMs rl)) (enumerate 0 (t0 # ts))
       \<and> (\<forall>res\<in>set (fst (checks (t0 # ts) u rl)). \<forall>d.
             retryAfter res = Some d \<longrightarrow> 0 < d \<and> d \<le> windowMs rl)
       \<and> limits (snd (checks (t0 # ts) u rl)) u =
           Some \<lparr>count = min (1 + int (length ts)) (maxRequests rl),
                 resetAt = t0 + windowMs rl\<rparr>"
proof -
  define rl' where
    "rl' = rl\<lparr>limits := (limits rl)(u \<mapsto> \<lparr>count = 1, resetAt = t0 + windowMs rl\<rparr>)\<rparr>"
  have first: "RateLimiter_check t0 u rl = (\<lparr>allowed = True, retryAfter = None\<rparr>, rl')"
    using assms(2) by (simp add: open_window_entry rl'_def)
  have mr: "maxRequests rl' = maxRequests rl" by (simp add: rl'_def)
  have later: "\<forall>t\<in>set ts. t < t0 + windowMs rl" using assms(3) by simp
  have rest: "fst (checks ts u rl') =
                map (window_answer (maxRequests rl') (t0 + windowMs rl)) (enumerate (Suc 0) ts)
         \<and> limits (snd (checks ts u rl')) u =
             Some \<lparr>count = min (int (Suc 0 + length ts)) (maxRequests rl'),
                   resetAt = t0 + windowMs rl\<rparr>
         \<and> maxRequests (snd (checks ts u rl')) = maxRequests rl'
         \<and> windowMs (snd (checks ts u rl')) = windowMs rl'"
  proof (rule checks_in_window [of rl' u 1 "t0 + windowMs rl" ts "Suc 0"])
    show "limits rl' u = Some \<lparr>count = 1, resetAt = t0 + windowMs rl\<rparr>" by (simp add: rl'_def)
    show "\<forall>t\<in>set ts. t < t0 + windowMs rl" by (rule later)
    show "1 \<le> maxRequests rl'" using assms(1) by (simp add: mr)
    show "1 = min (int (Suc 0)) (maxRequests rl')" using assms(1) by (simp add: mr)
  qed
  have head: "window_answer (maxRequests rl) (t0 + windowMs rl) (0, t0) =
                \<lparr>allowed = True, retryAfter = None\<rparr>"
    using assms(1) by (simp add: window_answer_def)
  have results: "fst (checks (t0 # ts) u rl) =
      map (window_answer (maxRequests rl) (t0 + windowMs rl)) (enumerate 0 (t0 # ts))"
    using rest unfolding mr by (cases "checks ts u rl'") (simp add: first head)
  have all: "\<forall>t\<in>set (t0 # ts). t0 \<le> t \<and> t < t0 + windowMs rl \<or> t = t0"
    using assms(3) by simp
  have bound: "\<forall>res\<in>set (fst (checks (t0 # ts) u rl)). \<forall>d.
             retryAfter res = Some d \<longrightarrow> 0 < d \<and> d \<le> windowMs rl"
  proof (intro ballI allI impI)
    fix res d
    assume mem: "res \<in> set (fst (checks (t0 # ts) u rl))" and d: "retryAfter res = Some d"
    from mem have "res = \<lparr>allowed = True, retryAfter = None\<rparr>
        \<or> res \<in> set (map (window_answer (maxRequests rl) (t0 + windowMs rl)) (enumerate (Suc 0) ts))"
      unfolding results by (simp add: head)
    with d have "res \<in> set (map (window_answer (maxRequests rl) (t0 + windowMs rl)) (enumerate (Suc 0) ts))"
      by auto
    from window_answer_retry [OF assms(3) this d] show "0 < d \<and> d \<le> windowMs rl" .
  qed
  have final: "limits (snd (checks (t0 # ts) u rl)) u =
           Some \<lparr>count = min (1 + int (length ts)) (maxRequests rl),
                 resetAt = t0 + windowMs rl\<rparr>"
    using rest unfolding mr by (cases "checks ts u rl'") (simp add: first)
  show ?thesis
    using first results bound final unfolding rl'_def by blast
qed

theorem C3_fixed_window_witness:
  "1 \<le> maxRequests \<lparr>limits = Map.empty, maxRequests = 2, windowMs = 1000\<rparr>
   \<and> window_closed \<lparr>limits = Map.empty, maxRequests = 2, windowMs = 1000\<rparr> ''alice'' 0
   \<and> list_all (\<lambda>t. 0 \<le> t
        \<and> t < 0 + windowMs \<lparr>limits = Map.empty, maxRequests = 2, windowMs = 1000\<rparr>) [100, 200]
   \<and> fst (checks [0, 100, 200] ''alice'' \<lparr>limits = Map.empty, maxRequests = 2, windowMs = 1000\<rparr>) =
       [\<lparr>allowed = True, retryAfter = None\<rparr>,
        \<lparr>allowed = True, retryAfter = None\<rparr>,
        \<lparr>allowed = False, retryAfter = Some 800\<rparr>]"
proof -
  let ?rl = "\<lparr>limits = Map.empty, maxRequests = 2, windowMs = 1000\<rparr>"
  have h1: "1 \<le> maxRequests ?rl" by simp
  have h2: "window_closed ?rl ''alice'' 0" by (simp add: window_closed_def)
  have h3: "\<forall>t\<in>set [100, 200 :: int]. 0 \<le> t \<and> t < 0 + windowMs ?rl" by simp
  from C3_fixed_window [OF h1 h2 h3]
  have "fst (checks [0, 100, 200] ''alice'' ?rl) =
          map (window_answer (maxRequests ?rl) (0 + windowMs ?rl)) (enumerate 0 [0, 100, 200])"
    by blast
  then have "fst (checks [0, 100, 200] ''alice'' ?rl) =
       [\<lparr>allowed = True, retryAfter = None\<rparr>,
        \<lparr>allowed = True, retryAfter = None\<rparr>,
        \<lparr>allowed = False, retryAfter = Some 800\<rparr>]"
    by (simp add: window_answer_def)
  with h1 h2 h3 show ?thesis by simp
qed

text \<open>
  C3 as stated fails for a limit of zero requests: the call that opens a window is
  allowed whatever maxRequests is, so with \<open>N = 0\<close> the (N+1)-th call, which is the
  first, is allowed and not denied.
\<close>

theorem C3_zero_limit_counterexample:
  "maxRequests \<lparr>limits = Map.empty, maxRequests = 0, windowMs = 1000\<rparr> + 1 = 1
   \<and> fst (RateLimiter_check 0 ''alice'' \<lparr>limits = Map.empty, maxRequests = 0, windowMs = 1000\<rparr>)
       = \<lparr>allowed = True, retryAfter = None\<rparr>"
  by (simp add: RateLimiter_check_def open_window_def)

text \<open>
  C10. A denied check leaves the limiter as it was: whenever the call returns
  allowed = false the returned limiter is the one passed in; and when the user's window
  is open (now before resetAt) with the count equal to maxRequests, the call is denied
  with retryAfter = resetAt - now, so the entry's count and resetAt are unchanged.
\<close>

theorem C10_denied_check_changes_nothing:
  "(\<not> allowed (fst (RateLimiter_check now u rl)) \<longrightarrow> snd (RateLimiter_check now u rl) = rl)
   \<and> (limits rl u = Some e \<and> now < resetAt e \<and> count e = maxRequests rl \<longrightarrow>
        RateLimiter_check now u rl =
          (\<lparr>allowed = False, retryAfter = Some (resetAt e - now)\<rparr>, rl))"
  by (simp add: RateLimiter_check_def open_window_def split: option.splits)

theorem C10_denied_check_changes_nothing_witness:
  "\<not> allowed (fst (RateLimiter_check 200 ''alice''
        \<lparr>limits = [''alice'' \<mapsto> \<lparr>count = 2, resetAt = 1000\<rparr>], maxRequests = 2, windowMs = 1000\<rparr>))
   \<and> snd (RateLimiter_check 200 ''alice''
        \<lparr>limits = [''alice'' \<mapsto> \<lparr>count = 2, resetAt = 1000\<rparr>], maxRequests = 2, windowMs = 1000\<rparr>)
     = \<lparr>limits = [''alice'' \<mapsto> \<lparr>count = 2, resetAt = 1000\<rparr>], maxRequests = 2, windowMs = 1000\<rparr>
   \<and> RateLimiter_check 200 ''alice''
        \<lparr>limits = [''alice'' \<mapsto> \<lparr>count = 2, resetAt = 1000\<rparr>], maxRequests = 2, windowMs = 1000\<rparr>
     = (\<lparr>allowed = False, retryAfter = Some 800\<rparr>,
        \<lparr>limits = [''alice'' \<mapsto> \<lparr>count = 2, resetAt = 1000\<rparr>], maxRequests = 2, windowMs = 1000\<rparr>)"
proof -
  let ?e = "\<lparr>count = 2, resetAt = 1000\<rparr>"
  let ?rl = "\<lparr>limits = [''alice'' \<mapsto> ?e], maxRequests = 2, windowMs = 1000\<rparr>"
  have h: "limits ?rl ''alice'' = Some ?e \<and> 200 < resetAt ?e \<and> count ?e = maxRequests ?rl"
    by simp
  from C10_denied_check_changes_nothing [of 200 "''alice''" ?rl ?e] h
  have eq: "RateLimiter_check 200 ''alice'' ?rl = (\<lparr>allowed = False, retryAfter = Some (resetAt ?e - 200)\<rparr>, ?rl)"
    by blast
  then show ?thesis by simp
qed

section \<open>Properties of pairing codes\<close>

lemma logEvent_codes [simp]: "pairing_codes (logEvent ty u ch d nid now db) = pairing_codes db"
  by (simp add: logEvent_def logSecurityEvent_def)

lemma addToAllowlist_codes [simp]: "pairing_codes (addToAllowlist now u ch db) = pairing_codes db"
  by (simp add: addToAllowlist_def split: option.splits)

lemma consume_codes:
  "pairing_codes (snd (consumePairingCode now c' db)) c =
     (if c = c' \<and> fst (consumePairingCode now c' db)
      then map_option (\<lambda>row. row\<lparr>used := True\<rparr>) (pairing_codes db c)
      else pairing_codes db c)"
  by (auto simp add: consumePairingCode_def split: option.splits)

lemma consume_success:
  "fst (consumePairingCode now c db) =
     (case pairing_codes db c of None \<Rightarrow> False | Some row \<Rightarrow> \<not> used row \<and> now < expires_at row)"
  by (simp add: consumePairingCode_def split: option.splits)

lemma approve_codes:
  "pairing_codes (snd (approvePairing env c' db)) c =
     (if c = c' \<and> success (fst (approvePairing env c' db))
      then map_option (\<lambda>row. row\<lparr>used := True\<rparr>) (pairing_codes db c)
      else pairing_codes db c)"
  by (auto simp add: approvePairing_def getPairingCode_def consumePairingCode_def
       split: option.splits prod.splits bool.splits if_splits)

lemma approve_success:
  "success (fst (approvePairing env c db)) =
     (getPairingCode (now_get env) c db \<noteq> None \<and> fst (consumePairingCode (now_consume env) c db))"
  by (auto simp add: approvePairing_def split: option.splits prod.splits bool.splits)

lemma rejected_save: "saves c a \<Longrightarrow> \<not> fst (apply_action a db) \<Longrightarrow> snd (apply_action a db) = db"
  by (cases a) (auto split: sum.splits)

lemma step_codes:
  "saves c a \<longrightarrow> \<not> fst (apply_action a db) \<Longrightarrow>
   pairing_codes (snd (apply_action a db)) c = None
   \<or> pairing_codes (snd (apply_action a db)) c = pairing_codes db c
   \<or> (attempts c a \<and> fst (apply_action a db)
       \<and> pairing_codes (snd (apply_action a db)) c =
            map_option (\<lambda>row. row\<lparr>used := True\<rparr>) (pairing_codes db c))"
proof (cases a)
  case (Save pc)
  assume h: "saves c a \<longrightarrow> \<not> fst (apply_action a db)"
  show ?thesis
  proof (cases "saves c a")
    case True
    with h have "snd (apply_action a db) = db" by (simp add: rejected_save)
    then show ?thesis by simp
  next
    case False
    with Save show ?thesis by (auto simp: savePairingCode_def split: option.splits)
  qed
next
  case (Get now c')
  then show ?thesis by simp
next
  case (Consume now c')
  then show ?thesis by (cases "consumePairingCode now c' db") (use consume_codes [where c=c and now=now and c'=c' and db=db] in auto)
next
  case (Approve env c')
  then show ?thesis by (cases "approvePairing env c' db") (use approve_codes [where c=c and env=env and c'=c' and db=db] in auto)
next
  case (Cleanup now)
  then show ?thesis by (auto simp: cleanupPairingCodes_def split: option.splits)
qed

lemma apply_approve:
  "fst (apply_action (Approve env c) db) = success (fst (approvePairing env c db))"
  "snd (apply_action (Approve env c) db) = snd (approvePairing env c db)"
  by (simp_all split: prod.splits)

lemma attempt_fails_when_spent:
  "spent c db \<Longrightarrow> attempts c a \<Longrightarrow> \<not> fst (apply_action a db)"
  by (cases a)
     (auto simp: spent_def consume_success approve_success apply_approve
        simp del: apply_action.simps(4) split: option.splits)

lemma attempt_fails_when_dead:
  "dead c t db \<Longrightarrow> not_before c t a \<Longrightarrow> attempts c a \<Longrightarrow> \<not> fst (apply_action a db)"
  by (cases a)
     (auto simp: dead_def consume_success approve_success apply_approve
        simp del: apply_action.simps(4) split: option.splits)

lemma spent_step:
  "spent c db \<Longrightarrow> saves c a \<longrightarrow> \<not> fst (apply_action a db) \<Longrightarrow> spent c (snd (apply_action a db))"
  using step_codes [of c a db] by (auto simp: spent_def split: option.splits)

lemma dead_step:
  "dead c t db \<Longrightarrow> saves c a \<longrightarrow> \<not> fst (apply_action a db) \<Longrightarrow> dead c t (snd (apply_action a db))"
  using step_codes [of c a db] by (auto simp: dead_def split: option.splits)

lemma success_spends:
  "attempts c a \<Longrightarrow> fst (apply_action a db) \<Longrightarrow> spent c (snd (apply_action a db))"
  by (cases a)
     (auto simp: spent_def consume_success approve_success consume_codes approve_codes
        apply_approve simp del: apply_action.simps(4) split: option.splits)

lemma attempt_results_Nil: "attempt_results c [] db = []"
  by (simp add: attempt_results_def)

lemma attempt_results_Cons:
  "attempt_results c (a # as) db =
     (if attempts c a then [fst (apply_action a db)] else [])
       @ attempt_results c as (snd (apply_action a db))"
  by (cases "apply_action a db"; cases "run_actions as (snd (apply_action a db))")
     (simp add: attempt_results_def)

lemma save_results_Cons:
  "save_results c (a # as) db =
     (if saves c a then [fst (apply_action a db)] else [])
       @ save_results c as (snd (apply_action a db))"
  by (cases "apply_action a db"; cases "run_actions as (snd (apply_action a db))")
     (simp add: save_results_def)

lemma save_results_Nil: "save_results c [] db = []"
  by (simp add: save_results_def)

lemma no_save_no_results: "\<forall>a\<in>set as. \<not> saves c a \<Longrightarrow> save_results c as db = []"
  by (induction as arbitrary: db) (simp_all add: save_results_Nil save_results_Cons)

lemma spent_run:
  "spent c db \<Longrightarrow> \<forall>r\<in>set (save_results c as db). \<not> r \<Longrightarrow>
   \<forall>r\<in>set (attempt_results c as db). \<not> r"
proof (induction as arbitrary: db)
  case Nil
  show ?case by (simp add: attempt_results_Nil)
next
  case (Cons a as)
  have first: "saves c a \<longrightarrow> \<not> fst (apply_action a db)"
    and rest: "\<forall>r\<in>set (save_results c as (snd (apply_action a db))). \<not> r"
    using Cons.prems(2) by (auto simp add: save_results_Cons)
  have "spent c (snd (apply_action a db))" using Cons.prems(1) first by (rule spent_step)
  then have "\<forall>r\<in>set (attempt_results c as (snd (apply_action a db))). \<not> r"
    using rest by (rule Cons.IH)
  then show ?case
    using attempt_fails_when_spent [OF Cons.prems(1), of a]
    by (auto simp add: attempt_results_Cons)
qed

lemma dead_run:
  "dead c t db \<Longrightarrow> \<forall>r\<in>set (save_results c as db). \<not> r \<Longrightarrow> \<forall>a\<in>set as. not_before c t a \<Longrightarrow>
   \<forall>r\<in>set (attempt_results c as db). \<not> r"
proof (induction as arbitrary: db)
  case Nil
  show ?case by (simp add: attempt_results_Nil)
next
  case (Cons a as)
  have first: "saves c a \<longrightarrow> \<not> fst (apply_action a db)"
    and rest: "\<forall>r\<in>set (save_results c as (snd (apply_action a db))). \<not> r"
    using Cons.prems(2) by (auto simp add: save_results_Cons)
  have later: "\<forall>a\<in>set as. not_before c t a" using Cons.prems(3) by simp
  have "dead c t (snd (apply_action a db))" using Cons.prems(1) first by (rule dead_step)
  then have "\<forall>r\<in>set (attempt_results c as (snd (apply_action a db))). \<not> r"
    using rest later by (rule Cons.IH)
  then show ?case
    using attempt_fails_when_dead [OF Cons.prems(1), of a] Cons.prems(3)
    by (auto simp add: attempt_results_Cons)
qed

lemma one_winner:
  "\<forall>r\<in>set (save_results c as db). \<not> r \<Longrightarrow> length (filter (\<lambda>r. r) (attempt_results c as db)) \<le> 1"
proof (induction as arbitrary: db)
  case Nil
  show ?case by (simp add: attempt_results_Nil)
next
  case (Cons a as)
  have rest: "\<forall>r\<in>set (save_results c as (snd (apply_action a db))). \<not> r"
    using Cons.prems by (auto simp add: save_results_Cons)
  show ?case
  proof (cases "attempts c a \<and> fst (apply_action a db)")
    case True
    then have "spent c (snd (apply_action a db))" by (simp add: success_spends)
    from spent_run [OF this rest]
    have "filter (\<lambda>r. r) (attempt_results c as (snd (apply_action a db))) = []"
      by (simp add: filter_empty_conv)
    then show ?thesis using True by (simp add: attempt_results_Cons)
  next
    case False
    then show ?thesis using Cons.IH [OF rest] by (auto simp add: attempt_results_Cons)
  qed
qed

lemma consumed_is_spent: "consumePairingCode now c db0 = (True, db) \<Longrightarrow> spent c db"
  by (auto simp: consumePairingCode_def spent_def split: option.splits if_splits)

lemma approved_is_spent:
  "approvePairing env c db0 = (res, db) \<Longrightarrow> success res \<Longrightarrow> spent c db"
  using success_spends [of c "Approve env c" db0] by simp

text \<open>
  C1 (amended: as long as the code string is not stored again). Take any run of the
  statements that touch pairing_codes (savePairingCode calls, lookups,
  consumePairingCode and approvePairing calls for any code, clean-ups), in any
  interleaving, in which every savePairingCode call for \<open>c\<close> is rejected (in particular
  a run with no such call). If the run starts right after a consumePairingCode or
  approvePairing call for \<open>c\<close> succeeded, every attempt for \<open>c\<close> in it fails
  (consumePairingCode returns false, approvePairing returns success = false). The same
  holds if at time \<open>t\<close> the code has no row, is used or has expired and the later
  attempts read the clock at \<open>t\<close> or later. From any database, at most one attempt for
  \<open>c\<close> in the run succeeds.
\<close>

theorem C1_pairing_code_consumed_at_most_once:
  assumes "\<forall>r\<in>set (save_results c as db). \<not> r"
  shows "(consumePairingCode now c db0 = (True, db) \<or>
          (approvePairing env c db0 = (res, db) \<and> success res)
            \<longrightarrow> (\<forall>r\<in>set (attempt_results c as db). \<not> r))
       \<and> (dead c t db \<and> (\<forall>a\<in>set as. not_before c t a)
            \<longrightarrow> (\<forall>r\<in>set (attempt_results c as db). \<not> r))
       \<and> length (filter (\<lambda>r. r) (attempt_results c as db)) \<le> 1"
proof (intro conjI impI)
  assume "consumePairingCode now c db0 = (True, db) \<or>
          (approvePairing env c db0 = (res, db) \<and> success res)"
  then have "spent c db" using consumed_is_spent approved_is_spent by blast
  from spent_run [OF this assms] show "\<forall>r\<in>set (attempt_results c as db). \<not> r" .
next
  assume h: "dead c t db \<and> (\<forall>a\<in>set as. not_before c t a)"
  from dead_run [OF _ assms] h show "\<forall>r\<in>set (attempt_results c as db). \<not> r" by blast
next
  from one_winner [OF assms] show "length (filter (\<lambda>r. r) (attempt_results c as db)) \<le> 1" .
qed

text \<open>
  The theorem at a concrete store: the code ABCDEF of user mallory is consumed at time
  10; the later attempts (two consumePairingCode calls, an approvePairing call, around a
  clean-up and a rejected second INSERT of the same string) all fail; attempts at or
  after the expiry fail; of the four attempts of the whole run one succeeds.
\<close>

theorem C1_pairing_code_consumed_at_most_once_witness:
  "list_all (\<lambda>r. \<not> r)
     (save_results ''ABCDEF'' (Save reissued_code # example_later_steps)
        (snd (consumePairingCode 10 ''ABCDEF'' example_db)))
   \<and> save_results ''ABCDEF'' (Save reissued_code # example_later_steps)
        (snd (consumePairingCode 10 ''ABCDEF'' example_db)) = [False]
   \<and> fst (consumePairingCode 10 ''ABCDEF'' example_db)
   \<and> list_all (\<lambda>r. \<not> r)
        (attempt_results ''ABCDEF'' (Save reissued_code # example_later_steps)
           (snd (consumePairingCode 10 ''ABCDEF'' example_db)))
   \<and> attempt_results ''ABCDEF'' (Save reissued_code # example_later_steps)
        (snd (consumePairingCode 10 ''ABCDEF'' example_db)) = [False, False, False]
   \<and> dead ''ABCDEF'' 600000 example_db
   \<and> list_all (not_before ''ABCDEF'' 600000)
        [Consume 600000 ''ABCDEF'', Consume 600001 ''ABCDEF'']
   \<and> list_all (\<lambda>r. \<not> r)
        (attempt_results ''ABCDEF'' [Consume 600000 ''ABCDEF'', Consume 600001 ''ABCDEF'']
           example_db)
   \<and> attempt_results ''ABCDEF'' (Consume 10 ''ABCDEF'' # example_later_steps) example_db
       = [True, False, False, False]
   \<and> length (filter (\<lambda>r. r)
        (attempt_results ''ABCDEF'' (Consume 10 ''ABCDEF'' # example_later_steps) example_db)) \<le> 1"
proof -
  let ?c = "''ABCDEF''"
  let ?db1 = "snd (consumePairingCode 10 ?c example_db)"
  let ?later = "Save reissued_code # example_later_steps"
  let ?late = "[Consume 600000 ?c, Consume 600001 ?c]"
  have s1: "save_results ?c ?later ?db1 = [False]"
    by (simp add: save_results_def example_later_steps_def example_db_def reissued_code_def
          example_approve_env_def consumePairingCode_def approvePairing_def getPairingCode_def
          cleanupPairingCodes_def savePairingCode_def)
  have nosave: "\<forall>r\<in>set (save_results ?c ?later ?db1). \<not> r" by (simp add: s1)
  have nosave2: "\<forall>r\<in>set (save_results ?c ?late example_db). \<not> r"
    by (simp add: no_save_no_results)
  have nosave3: "\<forall>r\<in>set (save_results ?c (Consume 10 ?c # example_later_steps) example_db). \<not> r"
    by (simp add: no_save_no_results example_later_steps_def)
  have won: "consumePairingCode 10 ?c example_db = (True, ?db1)"
    by (simp add: consumePairingCode_def example_db_def)
  have isdead: "dead ?c 600000 example_db" by (simp add: dead_def example_db_def)
  have late: "\<forall>a\<in>set ?late. not_before ?c 600000 a" by simp
  have a: "\<forall>r\<in>set (attempt_results ?c ?later ?db1). \<not> r"
    using C1_pairing_code_consumed_at_most_once [OF nosave, of 10 example_db] won by blast
  have b: "\<forall>r\<in>set (attempt_results ?c ?late example_db). \<not> r"
    using C1_pairing_code_consumed_at_most_once [OF nosave2, of _ _ _ _ 600000]
      isdead late by blast
  have c: "length (filter (\<lambda>r. r)
        (attempt_results ?c (Consume 10 ?c # example_later_steps) example_db)) \<le> 1"
    using C1_pairing_code_consumed_at_most_once [OF nosave3] by blast
  have v1: "attempt_results ?c ?later ?db1 = [False, False, False]"
    by (simp add: attempt_results_def example_later_steps_def example_db_def reissued_code_def
          example_approve_env_def consumePairingCode_def approvePairing_def getPairingCode_def
          cleanupPairingCodes_def savePairingCode_def)
  have v2: "attempt_results ?c (Consume 10 ?c # example_later_steps) example_db
       = [True, False, False, False]"
    by (simp add: attempt_results_def example_later_steps_def example_db_def
          example_approve_env_def consumePairingCode_def approvePairing_def getPairingCode_def
          cleanupPairingCodes_def)
  have w1: "fst (consumePairingCode 10 ?c example_db)" using won by (metis fst_conv)
  have f1: "list_all (\<lambda>r. \<not> r) (save_results ?c ?later ?db1)" by (simp add: s1)
  have f3: "list_all (\<lambda>r. \<not> r) (attempt_results ?c ?later ?db1)"
    using a by (simp add: list_all_iff)
  have f6: "list_all (not_before ?c 600000) ?late" by simp
  have f7: "list_all (\<lambda>r. \<not> r) (attempt_results ?c ?late example_db)"
    using b unfolding list_all_iff .
  from f1 s1 w1 f3 v1 isdead f6 f7 v2 c show ?thesis by blast
qed

text \<open>
  Without that condition the claim fails. The code ABCDEF is consumed at time 10; a
  second INSERT of the string is rejected while the used row exists; the clean-up at
  time 40 deletes the used row (DELETE ... WHERE used = 1 OR expires_at < now); a later
  pairing request for which generateCode draws ABCDEF again is then accepted by the
  INSERT, and the consumePairingCode call at time 50 succeeds: the same code string has
  been consumed twice.
\<close>

theorem C1_reissued_code_counterexample:
  "attempt_results ''ABCDEF'' example_reissue_steps example_db = [True, True]
   \<and> save_results ''ABCDEF'' example_reissue_steps example_db = [False, True]
   \<and> fst (run_actions example_reissue_steps example_db) = [True, False, True, True, True]"
  by (simp add: attempt_results_def save_results_def example_reissue_steps_def example_db_def
        reissued_code_def consumePairingCode_def cleanupPairingCodes_def savePairingCode_def)

section \<open>Properties of the security gate\<close>

lemma length_toHex: "length (toHex bs) = 2 * length bs"
  by (induction bs) (simp_all add: toHex_def)

lemma length_generateCode: "length (generateCode len rnd) = len"
  by (simp add: generateCode_def toUpperCase_def length_toHex randomBytes_def)

lemma example_code: "generateCode 6 (random_byte example_gate_env) = ''ABCDEF''"
  unfolding example_gate_env_def by code_simp

text \<open>
  The branches of SecurityGate.check. It allows, recording an allowlist_hit event, when
  the static allowlist of the channel is empty or contains the identity, or the
  identity is in the dynamic allowlist. When the static allowlist is not empty and the
  identity is in neither list, under policy strict it returns a denial with no code and
  records a blocked event; under policy pairing, when the generated code is not yet a
  key of pairing_codes, the code has exactly the configured length, is stored unused
  with expiry 600000 ms (10 minutes) after the clock reading, the denial carries it and
  the blocked event mentions it. Every result that is allowed comes with an
  allowlist_hit event appended to the log.
\<close>

theorem gate_check_branches:
  "(getHardcodedAllowlist cfg chan = [] \<or> userId \<in> set (getHardcodedAllowlist cfg chan)
      \<or> isAllowlisted db userId chan
     \<longrightarrow> SecurityGate_check cfg env userId chan db =
          Inr (\<lparr>gate_allowed = True, reason = None, pairingCode = None\<rparr>,
               db\<lparr>security_events := security_events db @
                  [\<lparr>ev_id = event_nanoid env, ev_type = allowlist_hit, ev_userId = userId,
                    ev_channel = chan, ev_details = ''Access granted'',
                    ev_timestamp = now_log env\<rparr>]\<rparr>))
 \<and> (getHardcodedAllowlist cfg chan \<noteq> [] \<and> userId \<notin> set (getHardcodedAllowlist cfg chan)
      \<and> \<not> isAllowlisted db userId chan \<and> dmPolicy (security cfg) = strict
     \<longrightarrow> SecurityGate_check cfg env userId chan db =
          Inr (\<lparr>gate_allowed = False, reason = Some ''not_allowed'', pairingCode = None\<rparr>,
               db\<lparr>security_events := security_events db @
                  [\<lparr>ev_id = event_nanoid env, ev_type = blocked, ev_userId = userId,
                    ev_channel = chan, ev_details = ''Not in allowlist'',
                    ev_timestamp = now_log env\<rparr>]\<rparr>))
 \<and> (getHardcodedAllowlist cfg chan \<noteq> [] \<and> userId \<notin> set (getHardcodedAllowlist cfg chan)
      \<and> \<not> isAllowlisted db userId chan \<and> dmPolicy (security cfg) = pairing
      \<and> pairing_codes db (generateCode (pairingCodeLength (security cfg)) (random_byte env)) = None
     \<longrightarrow> length (generateCode (pairingCodeLength (security cfg)) (random_byte env))
            = pairingCodeLength (security cfg)
       \<and> SecurityGate_check cfg env userId chan db =
          Inr (\<lparr>gate_allowed = False, reason = Some ''pairing_required'',
                pairingCode = Some (generateCode (pairingCodeLength (security cfg)) (random_byte env))\<rparr>,
               db\<lparr>pairing_codes := (pairing_codes db)
                    (generateCode (pairingCodeLength (security cfg)) (random_byte env) \<mapsto>
                       \<lparr>user_id = userId, channel = chan,
                        expires_at = now_issue env + 600000, used = False\<rparr>),
                  security_events := security_events db @
                  [\<lparr>ev_id = event_nanoid env, ev_type = blocked, ev_userId = userId,
                    ev_channel = chan,
                    ev_details = ''Pairing code issued: ''
                       @ generateCode (pairingCodeLength (security cfg)) (random_byte env),
                    ev_timestamp = now_log env\<rparr>]\<rparr>))
 \<and> (\<forall>res db'. SecurityGate_check cfg env userId chan db = Inr (res, db') \<and> gate_allowed res
     \<longrightarrow> security_events db' = security_events db @
                  [\<lparr>ev_id = event_nanoid env, ev_type = allowlist_hit, ev_userId = userId,
                    ev_channel = chan, ev_details = ''Access granted'',
                    ev_timestamp = now_log env\<rparr>])"
proof (intro conjI impI allI)
  assume "getHardcodedAllowlist cfg chan = [] \<or> userId \<in> set (getHardcodedAllowlist cfg chan)
      \<or> isAllowlisted db userId chan"
  then show "SecurityGate_check cfg env userId chan db =
          Inr (\<lparr>gate_allowed = True, reason = None, pairingCode = None\<rparr>,
               db\<lparr>security_events := security_events db @
                  [\<lparr>ev_id = event_nanoid env, ev_type = allowlist_hit, ev_userId = userId,
                    ev_channel = chan, ev_details = ''Access granted'',
                    ev_timestamp = now_log env\<rparr>]\<rparr>)"
    by (auto simp: SecurityGate_check_def logEvent_def logSecurityEvent_def)
next
  assume "getHardcodedAllowlist cfg chan \<noteq> [] \<and> userId \<notin> set (getHardcodedAllowlist cfg chan)
      \<and> \<not> isAllowlisted db userId chan \<and> dmPolicy (security cfg) = strict"
  then show "SecurityGate_check cfg env userId chan db =
          Inr (\<lparr>gate_allowed = False, reason = Some ''not_allowed'', pairingCode = None\<rparr>,
               db\<lparr>security_events := security_events db @
                  [\<lparr>ev_id = event_nanoid env, ev_type = blocked, ev_userId = userId,
                    ev_channel = chan, ev_details = ''Not in allowlist'',
                    ev_timestamp = now_log env\<rparr>]\<rparr>)"
    by (simp add: SecurityGate_check_def logEvent_def logSecurityEvent_def)
next
  assume h: "getHardcodedAllowlist cfg chan \<noteq> [] \<and> userId \<notin> set (getHardcodedAllowlist cfg chan)
      \<and> \<not> isAllowlisted db userId chan \<and> dmPolicy (security cfg) = pairing
      \<and> pairing_codes db (generateCode (pairingCodeLength (security cfg)) (random_byte env)) = None"
  show "length (generateCode (pairingCodeLength (security cfg)) (random_byte env))
            = pairingCodeLength (security cfg)"
    by (rule length_generateCode)
  from h show "SecurityGate_check cfg env userId chan db =
          Inr (\<lparr>gate_allowed = False, reason = Some ''pairing_required'',
                pairingCode = Some (generateCode (pairingCodeLength (security cfg)) (random_byte env))\<rparr>,
               db\<lparr>pairing_codes := (pairing_codes db)
                    (generateCode (pairingCodeLength (security cfg)) (random_byte env) \<mapsto>
                       \<lparr>user_id = userId, channel = chan,
                        expires_at = now_issue env + 600000, used = False\<rparr>),
                  security_events := security_events db @
                  [\<lparr>ev_id = event_nanoid env, ev_type = blocked, ev_userId = userId,
                    ev_channel = chan,
                    ev_details = ''Pairing code issued: ''
                       @ generateCode (pairingCodeLength (security cfg)) (random_byte env),
                    ev_timestamp = now_log env\<rparr>]\<rparr>)"
    by (simp add: SecurityGate_check_def issuePairingCode_def savePairingCode_def
          logEvent_def logSecurityEvent_def Let_def)
next
  fix res db'
  assume "SecurityGate_check cfg env userId chan db = Inr (res, db') \<and> gate_allowed res"
  then show "security_events db' = security_events db @
                  [\<lparr>ev_id = event_nanoid env, ev_type = allowlist_hit, ev_userId = userId,
                    ev_channel = chan, ev_details = ''Access granted'',
                    ev_timestamp = now_log env\<rparr>]"
    by (auto simp: SecurityGate_check_def issuePairingCode_def savePairingCode_def
          logEvent_def logSecurityEvent_def Let_def split: if_splits sum.splits option.splits)
qed


theorem gate_check_branches_example:
  "getHardcodedAllowlist example_config ''whatsapp'' = []
   \<and> SecurityGate_check example_config example_gate_env ''mallory'' ''whatsapp'' empty_db =
       Inr (\<lparr>gate_allowed = True, reason = None, pairingCode = None\<rparr>,
            empty_db\<lparr>security_events :=
              [\<lparr>ev_id = ''ev1'', ev_type = allowlist_hit, ev_userId = ''mallory'',
                ev_channel = ''whatsapp'', ev_details = ''Access granted'',
                ev_timestamp = 1001\<rparr>]\<rparr>)
   \<and> getHardcodedAllowlist example_config ''telegram'' = [''owner'']
   \<and> \<not> isAllowlisted empty_db ''mallory'' ''telegram''
   \<and> dmPolicy (security example_strict_config) = strict
   \<and> SecurityGate_check example_strict_config example_gate_env ''mallory'' ''telegram'' empty_db =
       Inr (\<lparr>gate_allowed = False, reason = Some ''not_allowed'', pairingCode = None\<rparr>,
            empty_db\<lparr>security_events :=
              [\<lparr>ev_id = ''ev1'', ev_type = blocked, ev_userId = ''mallory'',
                ev_channel = ''telegram'', ev_details = ''Not in allowlist'',
                ev_timestamp = 1001\<rparr>]\<rparr>)
   \<and> dmPolicy (security example_config) = pairing
   \<and> pairing_codes empty_db ''ABCDEF'' = None
   \<and> SecurityGate_check example_config example_gate_env ''mallory'' ''telegram'' empty_db =
       Inr (\<lparr>gate_allowed = False, reason = Some ''pairing_required'',
             pairingCode = Some ''ABCDEF''\<rparr>,
            empty_db\<lparr>pairing_codes := [''ABCDEF'' \<mapsto>
                \<lparr>user_id = ''mallory'', channel = ''telegram'', expires_at = 601000,
                 used = False\<rparr>],
              security_events :=
              [\<lparr>ev_id = ''ev1'', ev_type = blocked, ev_userId = ''mallory'',
                ev_channel = ''telegram'', ev_details = ''Pairing code issued: ABCDEF'',
                ev_timestamp = 1001\<rparr>]\<rparr>)
   \<and> gate_allowed (fst (projr
         (SecurityGate_check example_config example_gate_env ''owner'' ''telegram'' empty_db)))
   \<and> security_events (snd (projr
         (SecurityGate_check example_config example_gate_env ''owner'' ''telegram'' empty_db))) =
       [\<lparr>ev_id = ''ev1'', ev_type = allowlist_hit, ev_userId = ''owner'',
         ev_channel = ''telegram'', ev_details = ''Access granted'', ev_timestamp = 1001\<rparr>]"
proof -
  note T = gate_check_branches
  have wa: "getHardcodedAllowlist example_config ''whatsapp'' = []"
    by (simp add: getHardcodedAllowlist_def example_config_def)
  have tg: "getHardcodedAllowlist example_config ''telegram'' = [''owner'']"
    by (simp add: getHardcodedAllowlist_def example_config_def)
  have tgs: "getHardcodedAllowlist example_strict_config ''telegram'' = [''owner'']"
    by (simp add: getHardcodedAllowlist_def example_config_def example_strict_config_def)
  have na: "\<not> isAllowlisted empty_db ''mallory'' ''telegram''"
    by (simp add: isAllowlisted_def empty_db_def)
  have st: "dmPolicy (security example_strict_config) = strict"
    by (simp add: example_strict_config_def)
  have pa: "dmPolicy (security example_config) = pairing"
    by (simp add: example_config_def)
  have len: "pairingCodeLength (security example_config) = 6"
    by (simp add: example_config_def)
  have code: "generateCode (pairingCodeLength (security example_config))
                (random_byte example_gate_env) = ''ABCDEF''"
    unfolding len example_gate_env_def by code_simp
  have fresh: "pairing_codes empty_db ''ABCDEF'' = None" by (simp add: empty_db_def)
  have env: "event_nanoid example_gate_env = ''ev1''" "now_log example_gate_env = 1001"
    "now_issue example_gate_env = 1000"
    by (simp_all add: example_gate_env_def)
  have ev: "security_events empty_db = []" "pairing_codes empty_db = Map.empty"
    by (simp_all add: empty_db_def)
  have c1: "SecurityGate_check example_config example_gate_env ''mallory'' ''whatsapp'' empty_db =
       Inr (\<lparr>gate_allowed = True, reason = None, pairingCode = None\<rparr>,
            empty_db\<lparr>security_events :=
              [\<lparr>ev_id = ''ev1'', ev_type = allowlist_hit, ev_userId = ''mallory'',
                ev_channel = ''whatsapp'', ev_details = ''Access granted'',
                ev_timestamp = 1001\<rparr>]\<rparr>)"
    using T [of example_config "''whatsapp''" "''mallory''" empty_db example_gate_env] wa
    by (simp add: env ev)
  have c2: "SecurityGate_check example_strict_config example_gate_env ''mallory'' ''telegram'' empty_db =
       Inr (\<lparr>gate_allowed = False, reason = Some ''not_allowed'', pairingCode = None\<rparr>,
            empty_db\<lparr>security_events :=
              [\<lparr>ev_id = ''ev1'', ev_type = blocked, ev_userId = ''mallory'',
                ev_channel = ''telegram'', ev_details = ''Not in allowlist'',
                ev_timestamp = 1001\<rparr>]\<rparr>)"
    using T [of example_strict_config "''telegram''" "''mallory''" empty_db example_gate_env]
      tgs na st
    by (simp add: env ev)
  have c3: "SecurityGate_check example_config example_gate_env ''mallory'' ''telegram'' empty_db =
       Inr (\<lparr>gate_allowed = False, reason = Some ''pairing_required'',
             pairingCode = Some ''ABCDEF''\<rparr>,
            empty_db\<lparr>pairing_codes := [''ABCDEF'' \<mapsto>
                \<lparr>user_id = ''mallory'', channel = ''telegram'', expires_at = 601000,
                 used = False\<rparr>],
              security_events :=
              [\<lparr>ev_id = ''ev1'', ev_type = blocked, ev_userId = ''mallory'',
                ev_channel = ''telegram'', ev_details = ''Pairing code issued: ABCDEF'',
                ev_timestamp = 1001\<rparr>]\<rparr>)"
    using T [of example_config "''telegram''" "''mallory''" empty_db example_gate_env]
      tg na pa fresh
    by (simp add: env ev code)
  have c4: "SecurityGate_check example_config example_gate_env ''owner'' ''telegram'' empty_db =
       Inr (\<lparr>gate_allowed = True, reason = None, pairingCode = None\<rparr>,
            empty_db\<lparr>security_events :=
              [\<lparr>ev_id = ''ev1'', ev_type = allowlist_hit, ev_userId = ''owner'',
                ev_channel = ''telegram'', ev_details = ''Access granted'',
                ev_timestamp = 1001\<rparr>]\<rparr>)"
    using T [of example_config "''telegram''" "''owner''" empty_db example_gate_env] tg
    by (simp add: env ev)
  show ?thesis
    using wa c1 tg na st c2 pa fresh c3 by (simp add: c4)
qed

text \<open>
  C4, a generated code that is already stored. The same unknown user is checked twice
  under policy pairing and the random bytes of the second call repeat those of the
  first. The first call stores the code ABCDEF and returns the denial carrying it; in
  the second call the INSERT of savePairingCode is rejected by the primary key on code,
  and check raises the store's error instead of returning a denial with a code and
  recording a blocked event.
\<close>

theorem C4_repeated_code_makes_check_raise:
  "getHardcodedAllowlist example_config ''telegram'' = [''owner'']
   \<and> dmPolicy (security example_config) = pairing
   \<and> (case SecurityGate_check example_config example_gate_env ''mallory'' ''telegram'' empty_db of
        Inl e \<Rightarrow> False
      | Inr (res, db1) \<Rightarrow>
          pairingCode res = Some ''ABCDEF''
          \<and> \<not> isAllowlisted db1 ''mallory'' ''telegram''
          \<and> SecurityGate_check example_config
               (example_gate_env\<lparr>event_nanoid := ''ev2'', now_issue := 2000, now_log := 2001\<rparr>)
               ''mallory'' ''telegram'' db1
             = Inl (SqliteConstraint ''pairing_codes.code''))"
proof -
  have code: "generateCode 6 (random_byte example_gate_env) = ''ABCDEF''"
    unfolding example_gate_env_def by code_simp
  have rb: "random_byte (example_gate_env\<lparr>event_nanoid := ''ev2'', now_issue := 2000, now_log := 2001\<rparr>)
      = random_byte example_gate_env" by simp
  show ?thesis
    by (simp add: SecurityGate_check_def issuePairingCode_def savePairingCode_def rb
          getHardcodedAllowlist_def isAllowlisted_def logEvent_def logSecurityEvent_def Let_def
          example_config_def empty_db_def code)
qed

section \<open>Properties of the container runner\<close>

text \<open>
  The default run under the docker runtime carries the whole flag set, for every
  configuration, command, workspace and container id.
\<close>

lemma runInSandbox_flag_set:
  assumes "runtime (container (security config)) = docker"
  shows "program (runInSandbox config nid command ws t) = ''docker''"
    and "take 2 (args (runInSandbox config nid command ws t)) = [''run'', ''--rm'']"
    and "has_option ''--name'' (''mybot-sandbox-'' @ nid) (args (runInSandbox config nid command ws t))"
    and "has_option ''--memory'' (memoryLimit (container (security config)))
           (args (runInSandbox config nid command ws t))"
    and "has_option ''--cpus'' (cpuLimit (container (security config)))
           (args (runInSandbox config nid command ws t))"
    and "has_option ''--network'' ''none'' (args (runInSandbox config nid command ws t))"
    and "''--read-only'' \<in> set (args (runInSandbox config nid command ws t))"
    and "has_option ''--tmpfs'' ''/tmp:size=100m'' (args (runInSandbox config nid command ws t))"
    and "has_option ''-v'' (ws @ '':/workspace:rw'') (args (runInSandbox config nid command ws t))"
    and "has_option ''--user'' ''1000:1000'' (args (runInSandbox config nid command ws t))"
    and "has_option ''--security-opt'' ''no-new-privileges''
           (args (runInSandbox config nid command ws t))"
  using assms by (simp_all add: runInSandbox_def Let_def)

text \<open>
  The network-enabled run under the docker runtime carries, for every input, the
  options of the default run other than --network none and --read-only.
\<close>

lemma runWithNetwork_flag_set:
  assumes "runtime (container (security config)) = docker"
  shows "program (runWithNetwork config nid command ws t) = ''docker''"
    and "take 2 (args (runWithNetwork config nid command ws t)) = [''run'', ''--rm'']"
    and "has_option ''--name'' (''mybot-net-'' @ nid) (args (runWithNetwork config nid command ws t))"
    and "has_option ''--memory'' (memoryLimit (container (security config)))
           (args (runWithNetwork config nid command ws t))"
    and "has_option ''--cpus'' (cpuLimit (container (security config)))
           (args (runWithNetwork config nid command ws t))"
    and "has_option ''--tmpfs'' ''/tmp:size=100m'' (args (runWithNetwork config nid command ws t))"
    and "has_option ''-v'' (ws @ '':/workspace:rw'') (args (runWithNetwork config nid command ws t))"
    and "has_option ''--user'' ''1000:1000'' (args (runWithNetwork config nid command ws t))"
    and "has_option ''--security-opt'' ''no-new-privileges''
           (args (runWithNetwork config nid command ws t))"
  using assms by (simp_all add: runWithNetwork_def Let_def)

text \<open>
  C2, the network-enabled run. With the docker runtime, runWithNetwork called for the
  command \<open>curl https://example.org\<close> in workspace \<open>/data/workspaces/s1\<close> builds an
  ephemeral container (--rm) named mybot-net-<id> with the memory cap, the CPU cap, the
  size-capped tmpfs, the workspace mount, the non-root user and no-new-privileges, and
  without --network none; but --read-only, which the default run passes, is not among
  its arguments, so the root filesystem of the container stays writable.
\<close>

theorem C2_network_run_is_not_read_only:
  "''--read-only'' \<in> set (args (runInSandbox example_config ''V1StGXR8''
        ''curl https://example.org'' ''/data/workspaces/s1'' 30000))
   \<and> ''--read-only'' \<notin> set (args (runWithNetwork example_config ''V1StGXR8''
        ''curl https://example.org'' ''/data/workspaces/s1'' 30000))
   \<and> args (runWithNetwork example_config ''V1StGXR8''
        ''curl https://example.org'' ''/data/workspaces/s1'' 30000) =
       [''run'', ''--rm'', ''--name'', ''mybot-net-V1StGXR8'', ''--memory'', ''512m'',
        ''--cpus'', ''0.5'', ''--tmpfs'', ''/tmp:size=100m'',
        ''-v'', ''/data/workspaces/s1:/workspace:rw'', ''--workdir'', ''/workspace'',
        ''--user'', ''1000:1000'', ''--security-opt'', ''no-new-privileges'',
        ''mybot-sandbox'', ''sh'', ''-c'', ''curl https://example.org'']"
  by (simp add: runInSandbox_def runWithNetwork_def example_config_def)

section \<open>Properties of the token budget\<close>


lemma estimateMessagesTokens_Nil: "estimateMessagesTokens [] = 0"
  by (simp add: estimateMessagesTokens_def)










section \<open>Properties of the agent loop\<close>

lemma execute_tools_acc:
  "execute_tools tools toolCtx calls acc = acc @ map (run_tool_call tools toolCtx) calls"
  by (induction calls arbitrary: acc) simp_all

lemma race_cases:
  "race_timeout (Resolves ms v) = (if ms \<le> TOOL_TIMEOUT then Fulfilled v else Thrown ''Tool execution timeout'')"
  "race_timeout (Rejects ms msg) = (if ms \<le> TOOL_TIMEOUT then Thrown msg else Thrown ''Tool execution timeout'')"
  "race_timeout Hangs = Thrown ''Tool execution timeout''"
  by (simp_all add: race_timeout_def)

lemma await_cases:
  "await_tool (Throws ms msg) = Thrown msg"
  "await_tool (Returns ms promise) = race_timeout promise"
  by (simp_all add: await_tool_def)

text \<open>
  One round of the tool-calling loop produces exactly one text per requested tool call,
  in order: the "not found" text for a name that is not in the registry; for a
  registered tool, the error text when execute throws, its result text when its promise
  resolves within 120000 ms of the return of execute, the error text with its message
  when it rejects within that time, and the timeout text when the timer fires first (or
  when the error carries the timer's own message). The round appends to the context the
  assistant turn and then one user turn whose content is all the texts joined by blank
  lines.
\<close>

lemma tool_round_texts:
  "length (execute_tools tools toolCtx calls []) = length calls
   \<and> (\<forall>i<length calls.
        execute_tools tools toolCtx calls [] ! i = run_tool_call tools toolCtx (calls ! i))
   \<and> (tools (tc_name tc) = None \<longrightarrow>
        run_tool_call tools toolCtx tc = ''Tool \"'' @ tc_name tc @ ''\" not found.'')
   \<and> (tools (tc_name tc) = Some t \<longrightarrow>
        (case execute t (tc_arguments tc) toolCtx of
           Throws ms0 msg \<Rightarrow>
             run_tool_call tools toolCtx tc =
               (if msg \<noteq> ''Tool execution timeout''
                then ''['' @ tc_name tc @ '' error]: '' @ msg
                else ''['' @ tc_name tc @ '' error]: Tool timed out after 120 seconds'')
         | Returns ms0 (Resolves ms v) \<Rightarrow>
             run_tool_call tools toolCtx tc =
               (if ms \<le> TOOL_TIMEOUT then ''['' @ tc_name tc @ '' result]: '' @ v
                else ''['' @ tc_name tc @ '' error]: Tool timed out after 120 seconds'')
         | Returns ms0 (Rejects ms msg) \<Rightarrow>
             run_tool_call tools toolCtx tc =
               (if ms \<le> TOOL_TIMEOUT \<and> msg \<noteq> ''Tool execution timeout''
                then ''['' @ tc_name tc @ '' error]: '' @ msg
                else ''['' @ tc_name tc @ '' error]: Tool timed out after 120 seconds'')
         | Returns ms0 Hangs \<Rightarrow>
             run_tool_call tools toolCtx tc =
               ''['' @ tc_name tc @ '' error]: Tool timed out after 120 seconds''))
   \<and> tool_round tools toolCtx currentMessages respContent calls =
       currentMessages
         @ [\<lparr>role = assistant,
             content = (if respContent = [] then ''(using tools...)'' else respContent)\<rparr>,
            \<lparr>role = user,
             content = join [CHR 0x0A, CHR 0x0A] (map (run_tool_call tools toolCtx) calls)\<rparr>]"
proof (intro conjI impI allI)
  show "length (execute_tools tools toolCtx calls []) = length calls"
    by (simp add: execute_tools_acc)
next
  fix i assume "i < length calls"
  then show "execute_tools tools toolCtx calls [] ! i = run_tool_call tools toolCtx (calls ! i)"
    by (simp add: execute_tools_acc)
next
  assume "tools (tc_name tc) = None"
  then show "run_tool_call tools toolCtx tc = ''Tool \"'' @ tc_name tc @ ''\" not found.''"
    by (simp add: run_tool_call_def)
next
  assume "tools (tc_name tc) = Some t"
  then show "case execute t (tc_arguments tc) toolCtx of
           Throws ms0 msg \<Rightarrow>
             run_tool_call tools toolCtx tc =
               (if msg \<noteq> ''Tool execution timeout''
                then ''['' @ tc_name tc @ '' error]: '' @ msg
                else ''['' @ tc_name tc @ '' error]: Tool timed out after 120 seconds'')
         | Returns ms0 (Resolves ms v) \<Rightarrow>
             run_tool_call tools toolCtx tc =
               (if ms \<le> TOOL_TIMEOUT then ''['' @ tc_name tc @ '' result]: '' @ v
                else ''['' @ tc_name tc @ '' error]: Tool timed out after 120 seconds'')
         | Returns ms0 (Rejects ms msg) \<Rightarrow>
             run_tool_call tools toolCtx tc =
               (if ms \<le> TOOL_TIMEOUT \<and> msg \<noteq> ''Tool execution timeout''
                then ''['' @ tc_name tc @ '' error]: '' @ msg
                else ''['' @ tc_name tc @ '' error]: Tool timed out after 120 seconds'')
         | Returns ms0 Hangs \<Rightarrow>
             run_tool_call tools toolCtx tc =
               ''['' @ tc_name tc @ '' error]: Tool timed out after 120 seconds''"
    by (simp add: run_tool_call_def race_cases await_cases split: Execution.splits ToolRun.splits)
next
  show "tool_round tools toolCtx currentMessages respContent calls =
       currentMessages
         @ [\<lparr>role = assistant,
             content = (if respContent = [] then ''(using tools...)'' else respContent)\<rparr>,
            \<lparr>role = user,
             content = join [CHR 0x0A, CHR 0x0A] (map (run_tool_call tools toolCtx) calls)\<rparr>]"
    by (simp add: tool_round_def execute_tools_acc)
qed

text \<open>The round at the example registry: six calls, six texts, one message.\<close>

lemma example_round_texts:
  "map (run_tool_call example_tools example_ctx) example_calls =
      [''[echo result]: hi'', ''Tool \"nope\" not found.'',
       ''[slow error]: Tool timed out after 120 seconds'', ''[broken error]: boom'',
       ''[crash error]: bad arguments'', ''[edge result]: just in time'']"
  by (simp add: example_tools_def example_calls_def tool_call_def run_tool_call_def
        await_tool_def race_timeout_def TOOL_TIMEOUT_def echo_tool_def slow_tool_def
        broken_tool_def crash_tool_def edge_tool_def)

lemma example_round:
  "tool_round example_tools example_ctx [\<lparr>role = user, content = ''hello''\<rparr>] [] example_calls =
       [\<lparr>role = user, content = ''hello''\<rparr>,
        \<lparr>role = assistant, content = ''(using tools...)''\<rparr>,
        \<lparr>role = user, content =
           ''[echo result]: hi'' @ [CHR 0x0A, CHR 0x0A] @ ''Tool \"nope\" not found.''
           @ [CHR 0x0A, CHR 0x0A] @ ''[slow error]: Tool timed out after 120 seconds''
           @ [CHR 0x0A, CHR 0x0A] @ ''[broken error]: boom''
           @ [CHR 0x0A, CHR 0x0A] @ ''[crash error]: bad arguments''
           @ [CHR 0x0A, CHR 0x0A] @ ''[edge result]: just in time''\<rparr>]"
  by (simp add: tool_round_def execute_tools_acc example_round_texts)

text \<open>
  The bash tool is never timed out by the loop: whatever the command does and however
  long spawnSync blocks, the promise execute returns resolves at once, so the call
  yields a result text.
\<close>

lemma bash_is_never_timed_out:
  assumes "tools ''bash'' = Some (makeBashTool spawn config nid)" and "tc_name tc = ''bash''"
  shows "\<exists>ms out. execute (makeBashTool spawn config nid) (tc_arguments tc) toolCtx
                    = Returns ms (Resolves 0 out)
           \<and> run_tool_call tools toolCtx tc = ''[bash result]: '' @ out"
  using assms
  by (simp add: run_tool_call_def makeBashTool_def Let_def await_cases race_cases)

text \<open>
  C6, the timeout. The model asks for the bash tool with the command "sleep 200" and a
  limit of 300 seconds. spawnSync blocks for the 200 seconds of the command inside
  execute, which is longer than the timeout of 120 seconds per call; the timer of the
  race is created only after that and loses against the promise, which is resolved
  already. The round therefore produces the result text of the tool, not the timeout
  text, and the turn was held up for 200 seconds.
\<close>

theorem C6_synchronous_run_is_not_timed_out:
  "bash_tools ''bash'' = Some (makeBashTool sleeping example_config ''V1StGXR8'')
   \<and> execute (makeBashTool sleeping example_config ''V1StGXR8'') (tc_arguments sleep_call)
        example_ctx = Returns 200000 (Resolves 0 ''(no output)'')
   \<and> TOOL_TIMEOUT < 200000
   \<and> run_tool_call bash_tools example_ctx sleep_call = ''[bash result]: (no output)''
   \<and> run_tool_call bash_tools example_ctx sleep_call
       \<noteq> ''[bash error]: Tool timed out after 120 seconds''
   \<and> tool_round bash_tools example_ctx [\<lparr>role = user, content = ''wait a bit''\<rparr>] []
        [sleep_call] =
       [\<lparr>role = user, content = ''wait a bit''\<rparr>,
        \<lparr>role = assistant, content = ''(using tools...)''\<rparr>,
        \<lparr>role = user, content = ''[bash result]: (no output)''\<rparr>]"
proof -
  have ex: "execute (makeBashTool sleeping example_config ''V1StGXR8'') (tc_arguments sleep_call)
        example_ctx = Returns 200000 (Resolves 0 ''(no output)'')"
    by (simp add: makeBashTool_def sleeping_def sleep_call_def Let_def sandbox_result_def
          trim_def)
  have reg: "bash_tools ''bash'' = Some (makeBashTool sleeping example_config ''V1StGXR8'')"
    by (simp add: bash_tools_def)
  have name: "tc_name sleep_call = ''bash''" by (simp add: sleep_call_def)
  have run: "run_tool_call bash_tools example_ctx sleep_call = ''[bash result]: (no output)''"
    unfolding run_tool_call_def name reg option.case ex
    by (simp add: await_cases race_cases)
  have round: "tool_round bash_tools example_ctx [\<lparr>role = user, content = ''wait a bit''\<rparr>] []
        [sleep_call] =
       [\<lparr>role = user, content = ''wait a bit''\<rparr>,
        \<lparr>role = assistant, content = ''(using tools...)''\<rparr>,
        \<lparr>role = user, content = ''[bash result]: (no output)''\<rparr>]"
    by (simp add: tool_round_def run)
  show ?thesis using reg ex run round by (simp add: TOOL_TIMEOUT_def)
qed



















section \<open>Properties of sessions\<close>

lemma saveMessage_sessions [simp]: "sessions (saveMessage m db) = sessions db"
  by (simp add: saveMessage_def)

lemma process_sessions:
  "sessions (snd (process config env incoming sid db)) =
     (case resolve_session config env incoming sid db of
        (session0, db0) \<Rightarrow> upsert_row (session0\<lparr>lastActiveAt := now_touch env\<rparr>) (sessions db0))"
  by (cases "resolve_session config env incoming sid db")
     (simp add: process_def prepare_turn_def Let_def upsertSession_def split: sum.splits)

lemma upsert_row_ids:
  "map s_id (upsert_row s rows) =
     (if s_id s \<in> s_id ` set rows then map s_id rows else map s_id rows @ [s_id s])"
  by (induction rows) auto

text \<open>No statement of the core deletes a session row: the ids present before a call of
  process are present after it.\<close>

lemma process_keeps_sessions:
  "s_id ` set (sessions db) \<subseteq> s_id ` set (sessions (snd (process config env incoming sid db)))"
proof -
  have up: "s_id ` set rows \<subseteq> s_id ` set (upsert_row s rows)" for s rows
    using upsert_row_ids [of s rows]
    by (metis (no_types, lifting) image_set set_append subset_refl sup_ge1)
  have goc: "s_id ` set (sessions db) \<subseteq> s_id ` set (sessions (snd
       (getOrCreateSession u ch g config nid t1 t2 db)))" for u ch g nid t1 t2
    using up by (auto simp: getOrCreateSession_def upsertSession_def Let_def split: option.splits)
  have res: "s_id ` set (sessions db) \<subseteq> s_id ` set (sessions (snd
       (resolve_session config env incoming sid db)))"
    using goc by (auto simp: resolve_session_def Let_def split: option.splits)
  show ?thesis
    unfolding process_sessions
    using res up by (cases "resolve_session config env incoming sid db") fastforce
qed

text \<open>A direct message of a user who has a direct-message session on the channel is
  handled in that session, and no session is created.\<close>

lemma direct_message_reuses_session:
  assumes "getSessionByUser db (sender incoming) (in_channel incoming) = Some s"
    and "\<not> truthy (groupId incoming)"
  shows "resolve_session config env incoming None db = (s, db)"
  using assms by (simp add: resolve_session_def getOrCreateSession_def)

text \<open>
  C9, group contexts. Two messages of the same user in the same group on the same
  channel, processed one after the other from an empty store: the second call does not
  reuse the session of the first but creates a second session for the same group, so
  the store holds two sessions for one (group, channel).
\<close>

theorem C9_group_messages_open_new_sessions:
  "map s_id (sessions (snd (process example_config (example_env llm_direct) group_message_1 None
        empty_db))) = [''s1'']
   \<and> map s_id (sessions (snd (process example_config second_env group_message_2 None
        (snd (process example_config (example_env llm_direct) group_message_1 None empty_db)))))
       = [''s1'', ''s2'']
   \<and> map s_groupId (sessions (snd (process example_config second_env group_message_2 None
        (snd (process example_config (example_env llm_direct) group_message_1 None empty_db)))))
       = [Some ''group-7'', Some ''group-7'']"
  apply (simp add: process_sessions)
  apply (simp add: resolve_session_def getOrCreateSession_def getSessionByUser_def
      upsertSession_def Let_def truthy_def process_sessions
      example_env_def second_env_def group_message_1_def group_message_2_def empty_db_def
      example_config_def split: prod.splits)
  done

section \<open>Properties of the swarm orchestrator\<close>

lemma upper_general: "toUpperCase ''general'' = ''GENERAL''"
  by code_simp

lemma upper_roles:
  "toUpperCase ''researcher'' = ''RESEARCHER''"
  "toUpperCase ''analyst'' = ''ANALYST''"
  "toUpperCase ''writer'' = ''WRITER''"
  by code_simp+

lemma record_set_new: "k \<notin> fst ` set acc \<Longrightarrow> record_set k v acc = acc @ [(k, v)]"
  by (induction acc) auto

text \<open>
  When the roles of the roster are pairwise distinct, the collected results hold one
  entry per agent, in roster order: its role with the text of its outcome.
\<close>

lemma collect_results_distinct:
  "distinct (map ag_role agents) \<Longrightarrow> set (map ag_role agents) \<inter> fst ` set acc = {} \<Longrightarrow>
   collect_results env agents i acc =
     acc @ map (\<lambda>ia. (ag_role (snd ia), agent_text (race_agent (agent_run env (fst ia) (snd ia)))))
             (enumerate i agents)"
proof (induction agents arbitrary: i acc)
  case Nil
  then show ?case by simp
next
  case (Cons a agents)
  have new: "ag_role a \<notin> fst ` set acc" using Cons.prems(2) by auto
  let ?acc = "acc @ [(ag_role a, agent_text (race_agent (agent_run env i a)))]"
  have "collect_results env agents (i + 1) ?acc =
     ?acc @ map (\<lambda>ia. (ag_role (snd ia), agent_text (race_agent (agent_run env (fst ia) (snd ia)))))
             (enumerate (i + 1) agents)"
  proof (rule Cons.IH)
    show "distinct (map ag_role agents)" using Cons.prems(1) by simp
    show "set (map ag_role agents) \<inter> fst ` set ?acc = {}"
      using Cons.prems by auto
  qed
  then show ?case by (simp add: record_set_new [OF new])
qed

text \<open>The scenario of three agents with roles of their own, the second never
  answering: the synthesis input has the three labelled sections.\<close>

lemma three_agents_second_times_out:
  "results_summary (collect_results (swarm_env second_hangs)
      (roster example_config (swarm_env second_hangs) (Some three_agents)) 0 []) =
     ''## RESEARCHER'' @ [CHR 0x0A] @ ''Found it.''
     @ [CHR 0x0A, CHR 0x0A] @ ''---'' @ [CHR 0x0A, CHR 0x0A]
     @ ''## ANALYST'' @ [CHR 0x0A] @ ''Agent timed out after 60 seconds''
     @ [CHR 0x0A, CHR 0x0A] @ ''---'' @ [CHR 0x0A, CHR 0x0A]
     @ ''## WRITER'' @ [CHR 0x0A] @ ''Written.''"
  by (simp add: roster_def three_agents_def no_fields_def buildCustomAgents_def or_else_def
        swarm_env_def second_hangs_def race_agent_def agent_text_def AGENT_TIMEOUT_def
        results_summary_def result_section_def upper_roles)

text \<open>
  C7, agents that share a role. Two custom agents are given without a role, so both
  get the role "general"; the call of the first fails with "rate limited", the second
  answers "All good.". Both outcomes are stored under the key "general", the second
  replaces the first, and the synthesis input has the single section of the second
  agent: the failure of the first agent is not in it.
\<close>

theorem C7_agents_sharing_a_role_lose_results:
  "map ag_role (roster example_config (swarm_env first_fails) (Some two_unnamed_agents))
     = [''general'', ''general'']
   \<and> agent_text (race_agent (first_fails 0)) = ''Error: rate limited''
   \<and> agent_text (race_agent (first_fails 1)) = ''All good.''
   \<and> collect_results (swarm_env first_fails)
        (roster example_config (swarm_env first_fails) (Some two_unnamed_agents)) 0 []
     = [(''general'', ''All good.'')]
   \<and> results_summary [(''general'', ''All good.'')] = ''## GENERAL'' @ [CHR 0x0A] @ ''All good.''
   \<and> SwarmOrchestrator_run example_config (swarm_env first_fails) ''Compare A and B''
        (Some two_unnamed_agents)
     = Inr (synthesis_input ''Compare A and B'' [(''general'', ''All good.'')])"
  by (simp add: SwarmOrchestrator_run_def roster_def two_unnamed_agents_def no_fields_def
        buildCustomAgents_def or_else_def swarm_env_def first_fails_def race_agent_def
        agent_text_def AGENT_TIMEOUT_def results_summary_def result_section_def upper_general)

end
